theory Spec2Isabelle
  imports Complex_Main
begin

section \<open>The SSE client component of src/app/page.tsx\<close>

text \<open>
  The component \<open>SseClient\<close> keeps its data in React state cells (\<open>useState\<close>) and in two
  mutable references (\<open>useRef\<close>). Its functions \<open>pushMessage\<close>, \<open>connect\<close>, \<open>cleanup\<close>
  and \<open>sendManual\<close>, and the callbacks \<open>connect\<close> installs on the \<open>EventSource\<close>, are
  translated below as functions from state to state. What the browser contributes
  (\<open>JSON.parse\<close>, \<open>JSON.stringify\<close>, the \<open>EventSource\<close> constructor, the delivery of
  transport events, timers, \<open>fetch\<close>) is either a parameter (\<open>platform\<close>) or an action of
  the step function.
\<close>

subsection \<open>Values of the platform\<close>

text \<open>A value of type \<open>any\<close> stored in a record's \<open>data\<close>: a string or the result of
  \<open>JSON.parse\<close>.\<close>

datatype json =
    JNull
  | JBool bool
  | JNumber rat
  | JString string
  | JArray "json list"
  | JObject "(string \<times> json) list"

text \<open>A thrown value: the errors the component can catch (\<open>SyntaxError\<close> of
  \<open>JSON.parse\<close> and of the \<open>EventSource\<close> constructor, \<open>TypeError\<close> of
  \<open>fetch\<close>) are \<open>Error\<close> objects with a name and a message.\<close>

record js_error =
  err_name :: string
  err_message :: string

text \<open>\<open>String(err)\<close>, that is \<open>Error.prototype.toString\<close>.\<close>

definition String_error :: "js_error \<Rightarrow> string" where
  "String_error e =
     (if err_name e = [] then err_message e
      else if err_message e = [] then err_name e
      else err_name e @ '': '' @ err_message e)"

text \<open>\<open>String(n)\<close> and the interpolation \<open>${n}\<close> of a non-negative integer: its decimal
  digits.\<close>

fun String_nat :: "nat \<Rightarrow> string" where
  "String_nat n =
     (if n < 10 then [''0123456789'' ! n]
      else String_nat (n div 10) @ [''0123456789'' ! (n mod 10)])"

declare String_nat.simps [simp del]

record platform =
  JSON_parse :: "string \<Rightarrow> js_error + json"
  JSON_stringify :: "json \<Rightarrow> string"
  new_EventSource :: "string \<Rightarrow> js_error option"

text \<open>\<open>JSON_parse P str\<close> is \<open>Inl e\<close> when \<open>JSON.parse(str)\<close> throws \<open>e\<close>;
  \<open>new_EventSource P u\<close> is \<open>Some e\<close> when \<open>new EventSource(u, ...)\<close> throws \<open>e\<close>.\<close>

subsection \<open>Data of the component\<close>

text \<open>The properties of the component (lines 12--20).\<close>

record props =
  url :: string
  token :: string
  reconnectOnError :: bool

text \<open>An element of \<open>messages\<close> (lines 23--25, 56--61); an absent optional field is
  \<open>None\<close>.\<close>

record msg =
  id' :: "string option"
  event :: "string option"
  data :: json
  raw :: "string option"

datatype readyState = CONNECTING | OPEN | CLOSED

text \<open>An \<open>EventSource\<close> object: the URL it was created with and its \<open>readyState\<close>.
  Every \<open>EventSource\<close> of the component is created by \<open>connect\<close>, which installs the same
  callbacks on each (\<open>onopen\<close>, \<open>onerror\<close>, \<open>onmessage\<close> and the listeners of
  \<open>tick\<close>, \<open>heartbeat\<close> and \<open>update\<close>), so the callbacks are not stored per object:
  the table \<open>listener\<close> below holds them by event type.\<close>

record eventsource =
  es_url :: string
  withCredentials :: bool
  readyState :: readyState

text \<open>A frame of the stream as the browser hands it over: the \<open>event:\<close> field when the
  server sent one, the data, and the last event id string.\<close>

record frame =
  lastEventId :: string
  eventName :: "string option"
  rawPayload :: string

text \<open>The request \<open>sendManual\<close> passes to \<open>fetch\<close>.\<close>

record request =
  req_url :: string
  req_method :: string
  req_headers :: "(string \<times> string) list"
  req_body :: string

text \<open>How an issued \<open>fetch\<close> ends: the promise rejects (a network error; \<open>fetch\<close>
  does not reject on an HTTP error status), or a response arrives with a status and a
  body text.\<close>

datatype fetch_outcome = NetworkError js_error | Response nat string

text \<open>
  The state: the six \<open>useState\<close> cells and the two \<open>useRef\<close> cells of lines 21--33, and
  what the component has handed to the browser: the \<open>EventSource\<close> objects created so
  far (\<open>esRef\<close> holds an index into \<open>heap\<close>), the pending \<open>setTimeout\<close> callbacks (each
  with its delay in milliseconds; all of them are the closure of lines 101--109), the
  requests passed to \<open>fetch\<close>, and the number of \<open>sendManual\<close> calls suspended at
  \<open>await fetch\<close>.
\<close>

record state =
  connected :: bool
  statusText :: string
  messages :: "msg list"
  manualPayload :: string
  autoConnect :: bool
  attempts :: nat
  esRef :: "nat option"
  attemptsRef :: nat
  heap :: "eventsource list"
  timers :: "nat list"
  requests :: "request list"
  pending :: nat

definition init :: state where
  \<open>init = \<lparr> connected = False, statusText = ''idle'', messages = [],
            manualPayload = ''{ "msg": "hello from client" }'', autoConnect = True,
            attempts = 0, esRef = None, attemptsRef = 0,
            heap = [], timers = [], requests = [], pending = 0 \<rparr>\<close>

definition fullUrl :: string where
  "fullUrl = ''http://localhost:3001''"

subsection \<open>pushMessage (lines 56--63)\<close>

definition pushMessage :: "msg \<Rightarrow> state \<Rightarrow> state" where
  "pushMessage m s = s\<lparr>messages := take 200 (m # messages s)\<rparr>"

definition meta :: "string \<Rightarrow> msg" where
  "meta txt = \<lparr> id' = None, event = Some ''__meta'', data = JString txt, raw = None \<rparr>"

subsection \<open>cleanup (lines 170--180)\<close>

definition cleanup :: "state \<Rightarrow> state" where
  "cleanup s =
     (let s1 = (case esRef s of
                  None \<Rightarrow> s
                | Some h \<Rightarrow> s\<lparr>heap := (heap s)[h := (heap s ! h)\<lparr>readyState := CLOSED\<rparr>],
                              esRef := None\<rparr>)
      in s1\<lparr>connected := False, statusText := ''closed''\<rparr>)"

subsection \<open>connect (lines 65--168)\<close>

text \<open>The body of \<open>connect\<close> up to the registration of the callbacks. The URL is built
  from the constant \<open>fullUrl\<close> (line 69); the call of \<open>buildUrl\<close> is commented out (line
  67), so neither the properties \<open>url\<close> and \<open>token\<close> nor a client id enter it.\<close>

definition connect :: "platform \<Rightarrow> props \<Rightarrow> state \<Rightarrow> state" where
  "connect P pr s =
     (let s1 = cleanup s;
          s2 = s1\<lparr>statusText := ''connecting...''\<rparr>;
          u = fullUrl @ ''/sse''
      in case new_EventSource P u of
           Some err \<Rightarrow>
             pushMessage (meta (String_error err))
               (s2\<lparr>statusText := ''failed to create EventSource''\<rparr>)
         | None \<Rightarrow>
             s2\<lparr>heap := heap s2 @ [\<lparr> es_url = u, withCredentials = False,
                                     readyState = CONNECTING \<rparr>],
                esRef := Some (length (heap s2))\<rparr>)"

text \<open>\<open>es.onopen\<close> (lines 75--81).\<close>

definition onopen :: "state \<Rightarrow> state" where
  "onopen s =
     pushMessage (meta (''connected to '' @ fullUrl))
       (s\<lparr>attemptsRef := 0, attempts := 0, connected := True, statusText := ''open''\<rparr>)"

text \<open>The delay of lines 96--99, for the value \<open>n\<close> of \<open>attemptsRef.current\<close>.\<close>

definition backoff :: "nat \<Rightarrow> nat" where
  "backoff n = min 30000 (1000 * 2 ^ min 6 n)"

text \<open>\<open>es.onerror\<close> (lines 83--111). \<open>Math.round(backoff / 1000)\<close> rounds half up.\<close>

definition onerror :: "props \<Rightarrow> state \<Rightarrow> state" where
  "onerror pr s =
     (let s1 = s\<lparr>connected := False, statusText := ''error'',
                 attemptsRef := attemptsRef s + 1\<rparr>;
          s2 = s1\<lparr>attempts := attemptsRef s1\<rparr>;
          s3 = pushMessage
                 (meta (''error (attempt '' @ String_nat (attemptsRef s2) @ '')'')) s2
      in if reconnectOnError pr
         then (let b = backoff (attemptsRef s3)
               in s3\<lparr>statusText :=
                        ''retrying in '' @ String_nat ((b + 500) div 1000) @ ''s'',
                      timers := timers s3 @ [b]\<rparr>)
         else s3)"

text \<open>The callback given to \<open>setTimeout\<close> (lines 101--109).\<close>

definition retry :: "platform \<Rightarrow> props \<Rightarrow> state \<Rightarrow> state" where
  "retry P pr s =
     (if (case esRef s of None \<Rightarrow> True
          | Some h \<Rightarrow> readyState (heap s ! h) = CLOSED)
      then connect P pr s else s)"

text \<open>The body shared by the callbacks that decode: \<open>JSON.parse\<close> in a \<open>try\<close> whose
  \<open>catch\<close> keeps the string.\<close>

definition parse_or_keep :: "platform \<Rightarrow> string \<Rightarrow> json" where
  "parse_or_keep P d = (case JSON_parse P d of Inl _ \<Rightarrow> JString d | Inr v \<Rightarrow> v)"

text \<open>\<open>es.onmessage\<close> (lines 113--128).\<close>

definition onmessage :: "platform \<Rightarrow> frame \<Rightarrow> state \<Rightarrow> state" where
  "onmessage P e s =
     pushMessage \<lparr> id' = Some (lastEventId e), event = Some ''message'',
                   data = parse_or_keep P (rawPayload e), raw = Some (rawPayload e) \<rparr> s"

text \<open>The listener of \<open>tick\<close> (lines 131--139).\<close>

definition on_tick :: "platform \<Rightarrow> frame \<Rightarrow> state \<Rightarrow> state" where
  "on_tick P e s =
     pushMessage \<lparr> id' = None, event = Some ''tick'',
                   data = parse_or_keep P (rawPayload e), raw = Some (rawPayload e) \<rparr> s"

text \<open>The listener of \<open>heartbeat\<close> (lines 143--146).\<close>

definition on_heartbeat :: "platform \<Rightarrow> frame \<Rightarrow> state \<Rightarrow> state" where
  "on_heartbeat P e s =
     pushMessage \<lparr> id' = None, event = Some ''heartbeat'',
                   data = JString (rawPayload e), raw = None \<rparr> s"

text \<open>The listener of \<open>update\<close> (lines 149--163).\<close>

definition on_update :: "platform \<Rightarrow> frame \<Rightarrow> state \<Rightarrow> state" where
  "on_update P e s =
     pushMessage \<lparr> id' = Some (lastEventId e), event = Some ''update'',
                   data = parse_or_keep P (rawPayload e), raw = Some (rawPayload e) \<rparr> s"

text \<open>
  The callbacks \<open>connect\<close> installs on the \<open>EventSource\<close>, by the type of the event
  that runs them. \<open>es.onopen\<close> and \<open>es.onerror\<close> are the handlers of the event types
  \<open>open\<close> and \<open>error\<close>: they run on the browser's own open and error events and also
  on a frame the server names \<open>open\<close> or \<open>error\<close>, which the browser dispatches as an
  event of that type. Neither looks at the event it receives.
\<close>

definition listener ::
  "string \<Rightarrow> (platform \<Rightarrow> props \<Rightarrow> frame \<Rightarrow> state \<Rightarrow> state) option" where
  "listener t =
     (if t = ''open'' then Some (\<lambda>P pr e. onopen)
      else if t = ''error'' then Some (\<lambda>P pr e. onerror pr)
      else if t = ''message'' then Some (\<lambda>P pr. onmessage P)
      else if t = ''tick'' then Some (\<lambda>P pr. on_tick P)
      else if t = ''heartbeat'' then Some (\<lambda>P pr. on_heartbeat P)
      else if t = ''update'' then Some (\<lambda>P pr. on_update P)
      else None)"

subsection \<open>sendManual (lines 182--195)\<close>

text \<open>\<open>sendManual\<close> up to \<open>await fetch\<close>: a payload that does not parse goes to the
  \<open>catch\<close>; otherwise the request is issued and the call is suspended.\<close>

definition sendManual :: "platform \<Rightarrow> state \<Rightarrow> state" where
  "sendManual P s =
     (case JSON_parse P (manualPayload s) of
        Inl err \<Rightarrow>
          pushMessage \<lparr> id' = None, event = Some ''manual-send-error'',
                        data = JString (String_error err), raw = None \<rparr> s
      | Inr body \<Rightarrow>
          s\<lparr>requests := requests s @
               [\<lparr> req_url = fullUrl @ ''/broadcast'', req_method = ''POST'',
                   req_headers = [(''Content-Type'', ''application/json'')],
                   req_body = JSON_stringify P body \<rparr>],
            pending := pending s + 1\<rparr>)"

text \<open>\<open>sendManual\<close> from \<open>await fetch\<close> on: a rejected promise goes to the \<open>catch\<close>;
  of a response only the body is read, by \<open>res.json()\<close>, which rejects when the body
  is not JSON. The status of the response is not looked at. The two awaits are one step
  here: the continuation reads nothing of the state but \<open>messages\<close>, through the
  updater of \<open>pushMessage\<close>.\<close>

definition sendManual_resume :: "platform \<Rightarrow> fetch_outcome \<Rightarrow> state \<Rightarrow> state" where
  "sendManual_resume P out s =
     (let s1 = s\<lparr>pending := pending s - 1\<rparr>
      in case out of
           NetworkError err \<Rightarrow>
             pushMessage \<lparr> id' = None, event = Some ''manual-send-error'',
                           data = JString (String_error err), raw = None \<rparr> s1
         | Response status body \<Rightarrow>
             (case JSON_parse P body of
                Inl err \<Rightarrow>
                  pushMessage \<lparr> id' = None, event = Some ''manual-send-error'',
                                data = JString (String_error err), raw = None \<rparr> s1
              | Inr v \<Rightarrow>
                  pushMessage \<lparr> id' = None, event = Some ''manual-send-result'',
                                data = v, raw = None \<rparr> s1))"

subsection \<open>The browser's side\<close>

text \<open>An \<open>EventSource\<close> fires \<open>open\<close>, \<open>error\<close> and message events only while its
  \<open>readyState\<close> is not \<open>CLOSED\<close>.\<close>

definition live :: "state \<Rightarrow> nat \<Rightarrow> bool" where
  "live s h = (h < length (heap s) \<and> readyState (heap s ! h) \<noteq> CLOSED)"

definition set_readyState :: "nat \<Rightarrow> readyState \<Rightarrow> state \<Rightarrow> state" where
  "set_readyState h r s = s\<lparr>heap := (heap s)[h := (heap s ! h)\<lparr>readyState := r\<rparr>]\<rparr>"

text \<open>The type of the event a frame is dispatched as: its \<open>event:\<close> field, or
  \<open>message\<close> when the field is absent or empty.\<close>

definition event_type :: "frame \<Rightarrow> string" where
  "event_type f =
     (case eventName f of
        None \<Rightarrow> ''message''
      | Some n \<Rightarrow> if n = [] then ''message'' else n)"

text \<open>The dispatch of a frame: to the callback installed for its type, if any.\<close>

definition dispatch :: "platform \<Rightarrow> props \<Rightarrow> frame \<Rightarrow> state \<Rightarrow> state" where
  "dispatch P pr f s =
     (case listener (event_type f) of None \<Rightarrow> s | Some l \<Rightarrow> l P pr f s)"

text \<open>
  What can happen to the component:
  \<^item> \<open>Mount\<close>: the effect of lines 46--54 runs;
  \<^item> \<open>ClickConnect\<close>, \<open>ClickDisconnect\<close>, \<open>ClickSend\<close>: the buttons (\<open>ClickDisconnect\<close> is
    also the effect's teardown);
  \<^item> \<open>EsOpen h\<close>: the connection of \<open>EventSource\<close> \<open>h\<close> is established;
  \<^item> \<open>EsError h fatal\<close>: the connection of \<open>h\<close> fails; the browser gives up (\<open>fatal\<close>,
    \<open>readyState\<close> becomes \<open>CLOSED\<close>) or reconnects by itself (\<open>CONNECTING\<close>);
  \<^item> \<open>EsFrame h f\<close>: frame \<open>f\<close> arrives on \<open>h\<close> and is dispatched as an event of its
    type;
  \<^item> \<open>TimerFires k\<close>: the delay of the \<open>k\<close>-th pending timer has elapsed;
  \<^item> \<open>FetchSettles out\<close>: a pending \<open>fetch\<close> ends with \<open>out\<close>;
  \<^item> \<open>EditPayload\<close>, \<open>SetAutoConnect\<close>: the text area and the check box.
\<close>

datatype action =
    Mount
  | ClickConnect
  | ClickDisconnect
  | ClickSend
  | EsOpen nat
  | EsError nat bool
  | EsFrame nat frame
  | TimerFires nat
  | FetchSettles fetch_outcome
  | EditPayload string
  | SetAutoConnect bool

fun step :: "platform \<Rightarrow> props \<Rightarrow> state \<Rightarrow> action \<Rightarrow> state" where
  "step P pr s Mount = (if autoConnect s then connect P pr s else s)"
| "step P pr s ClickConnect = connect P pr s"
| "step P pr s ClickDisconnect = cleanup s"
| "step P pr s ClickSend = sendManual P s"
| "step P pr s (EsOpen h) =
     (if live s h then onopen (set_readyState h OPEN s) else s)"
| "step P pr s (EsError h fatal) =
     (if live s h
      then onerror pr (set_readyState h (if fatal then CLOSED else CONNECTING) s)
      else s)"
| "step P pr s (EsFrame h f) = (if live s h then dispatch P pr f s else s)"
| "step P pr s (TimerFires k) =
     (if k < length (timers s)
      then retry P pr (s\<lparr>timers := take k (timers s) @ drop (Suc k) (timers s)\<rparr>)
      else s)"
| "step P pr s (FetchSettles out) =
     (if 0 < pending s then sendManual_resume P out s else s)"
| "step P pr s (EditPayload txt) = s\<lparr>manualPayload := txt\<rparr>"
| "step P pr s (SetAutoConnect b) = s\<lparr>autoConnect := b\<rparr>"

fun run :: "platform \<Rightarrow> props \<Rightarrow> state \<Rightarrow> action list \<Rightarrow> state" where
  "run P pr s [] = s"
| "run P pr s (a # as) = run P pr (step P pr s a) as"

subsection \<open>Observing a run\<close>

text \<open>The callback of the connection state machine that an action runs: \<open>onopen\<close>
  (the transition into Open) or \<open>onerror\<close> (the transition into Erroring), when the
  \<open>EventSource\<close> addressed is still live. The browser's open and error events run
  them, and so does a frame whose type is \<open>open\<close> or \<open>error\<close>.\<close>

datatype transition = Opened | Errored

fun transition_of :: "state \<Rightarrow> action \<Rightarrow> transition option" where
  "transition_of s (EsOpen h) = (if live s h then Some Opened else None)"
| "transition_of s (EsError h fatal) = (if live s h then Some Errored else None)"
| "transition_of s (EsFrame h f) =
     (if live s h \<and> event_type f = ''open'' then Some Opened
      else if live s h \<and> event_type f = ''error'' then Some Errored
      else None)"
| "transition_of s _ = None"

fun transitions :: "platform \<Rightarrow> props \<Rightarrow> state \<Rightarrow> action list \<Rightarrow> transition list" where
  "transitions P pr s [] = []"
| "transitions P pr s (a # as) =
     (case transition_of s a of None \<Rightarrow> [] | Some t \<Rightarrow> [t]) @
     transitions P pr (step P pr s a) as"

text \<open>The number of transitions into Erroring since the most recent transition into
  Open (since the start, when there was none).\<close>

definition errors_since_open :: "transition list \<Rightarrow> nat" where
  "errors_since_open ts = length (takeWhile (\<lambda>t. t = Errored) (rev ts))"

text \<open>The invariant of the handles: \<open>esRef\<close> never dangles, and every
  \<open>EventSource\<close> other than the one it holds is \<open>CLOSED\<close>.\<close>

definition one_handle :: "state \<Rightarrow> bool" where
  "one_handle s =
     ((case esRef s of None \<Rightarrow> True | Some h \<Rightarrow> h < length (heap s)) \<and>
      list_all (\<lambda>h. esRef s = Some h \<or> readyState (heap s ! h) = CLOSED)
        [0..<length (heap s)])"

subsection \<open>A platform and properties for the examples\<close>

text \<open>A platform whose \<open>JSON.parse\<close> knows one document, \<open>{"a":1}\<close>, and rejects every
  other string, and whose \<open>EventSource\<close> constructor never throws.\<close>

definition example_parse :: "string \<Rightarrow> js_error + json" where
  \<open>example_parse str =
     (if str = ''{"a":1}'' then Inr (JObject [(''a'', JNumber 1)])
      else Inl \<lparr> err_name = ''SyntaxError'', err_message = ''Unexpected token'' \<rparr>)\<close>

definition example_stringify :: "json \<Rightarrow> string" where
  \<open>example_stringify v = (if v = JObject [(''a'', JNumber 1)] then ''{"a":1}'' else ''null'')\<close>

definition example_new :: "string \<Rightarrow> js_error option" where
  "example_new u = None"

definition example_platform :: platform where
  "example_platform =
     \<lparr> JSON_parse = example_parse, JSON_stringify = example_stringify,
       new_EventSource = example_new \<rparr>"

definition example_props :: props where
  "example_props = \<lparr> url = ''/sse'', token = ''abc'', reconnectOnError = True \<rparr>"

definition numbered :: "nat \<Rightarrow> msg" where
  "numbered n = meta (String_nat n)"

section \<open>Properties\<close>

subsection \<open>Evaluating the examples\<close>

lemmas component_defs =
  connect_def cleanup_def pushMessage_def meta_def onopen_def onerror_def retry_def
  set_readyState_def live_def dispatch_def listener_def event_type_def parse_or_keep_def
  onmessage_def on_tick_def on_heartbeat_def on_update_def sendManual_def
  sendManual_resume_def fullUrl_def backoff_def String_error_def Let_def

lemmas example_defs =
  example_platform_def example_props_def example_parse_def example_stringify_def
  example_new_def init_def

lemma String_nat_digit: "n < 10 \<Longrightarrow> String_nat n = [''0123456789'' ! n]"
  by (simp add: String_nat.simps)

subsection \<open>The event buffer under every operation\<close>

lemma messages_cleanup: "messages (cleanup s) = messages s"
  by (simp add: cleanup_def Let_def split: option.splits)

lemma messages_connect:
  "messages (connect P pr s) =
     (case new_EventSource P (fullUrl @ ''/sse'') of
        None \<Rightarrow> messages s
      | Some err \<Rightarrow> take 200 (meta (String_error err) # messages s))"
  by (simp add: connect_def Let_def pushMessage_def messages_cleanup split: option.splits)

lemma messages_retry:
  "messages (retry P pr s) = messages s \<or>
   (\<exists>m. messages (retry P pr s) = take 200 (m # messages s))"
  by (simp add: retry_def messages_connect split: option.splits)

lemma messages_onopen:
  "messages (onopen s) = take 200 (meta (''connected to '' @ fullUrl) # messages s)"
  by (simp add: onopen_def pushMessage_def)

lemma messages_onerror:
  "messages (onerror pr s) =
     take 200 (meta (''error (attempt '' @ String_nat (attemptsRef s + 1) @ '')'') # messages s)"
  by (simp add: onerror_def pushMessage_def Let_def)

lemma messages_set_readyState: "messages (set_readyState h r s) = messages s"
  by (simp add: set_readyState_def)

lemma messages_dispatch:
  "messages (dispatch P pr f s) = messages s \<or>
   (\<exists>m. messages (dispatch P pr f s) = take 200 (m # messages s))"
  by (simp add: dispatch_def listener_def onmessage_def on_tick_def on_heartbeat_def
        on_update_def pushMessage_def messages_onopen messages_onerror)

lemma messages_sendManual:
  "messages (sendManual P s) = messages s \<or>
   (\<exists>m. messages (sendManual P s) = take 200 (m # messages s))"
  by (simp add: sendManual_def pushMessage_def split: sum.splits)

lemma messages_sendManual_resume:
  "\<exists>m. messages (sendManual_resume P out s) = take 200 (m # messages s)"
  by (simp add: sendManual_resume_def pushMessage_def Let_def split: sum.splits fetch_outcome.splits)

lemma messages_step:
  "messages (step P pr s a) = messages s \<or>
   (\<exists>m. messages (step P pr s a) = take 200 (m # messages s))"
proof (cases a)
  case Mount
  then show ?thesis by (simp add: messages_connect split: option.splits)
next
  case ClickConnect
  then show ?thesis by (simp add: messages_connect split: option.splits)
next
  case ClickDisconnect
  then show ?thesis by (simp add: messages_cleanup)
next
  case ClickSend
  then show ?thesis using messages_sendManual [of P s] by simp
next
  case (EsOpen h)
  then show ?thesis by (simp add: messages_onopen messages_set_readyState)
next
  case (EsError h fatal)
  then show ?thesis by (simp add: messages_onerror messages_set_readyState)
next
  case (EsFrame h f)
  then show ?thesis using messages_dispatch [of P pr f s] by simp
next
  case (TimerFires k)
  then show ?thesis
    using messages_retry [of P pr "s\<lparr>timers := take k (timers s) @ drop (Suc k) (timers s)\<rparr>"]
    by simp
next
  case (FetchSettles out)
  then show ?thesis using messages_sendManual_resume [of P out s] by simp
next
  case (EditPayload t)
  then show ?thesis by simp
next
  case (SetAutoConnect b)
  then show ?thesis by simp
qed

lemma take_cap: "take 200 (m # take 200 xs) = take 200 (m # xs)"
  by simp

lemma take_cap_Cons: "take 200 (m # take 200 (new @ old)) = take 200 ((m # new) @ old)"
  using take_cap [of m "new @ old"] by simp


lemma messages_run_from:
  "messages s = take 200 (new @ old) \<Longrightarrow>
   \<exists>new'. messages (run P pr s as) = take 200 (new' @ old)"
proof (induction as arbitrary: s new)
  case Nil
  then show ?case by auto
next
  case (Cons a as)
  from messages_step [of P pr s a]
  have "\<exists>new'. messages (step P pr s a) = take 200 (new' @ old)"
  proof
    assume "messages (step P pr s a) = messages s"
    with Cons.prems show ?thesis by auto
  next
    assume "\<exists>m. messages (step P pr s a) = take 200 (m # messages s)"
    then obtain m where "messages (step P pr s a) = take 200 (m # messages s)" ..
    with Cons.prems have "messages (step P pr s a) = take 200 ((m # new) @ old)"
      by (simp only: take_cap_Cons)
    then show ?thesis ..
  qed
  then obtain new' where "messages (step P pr s a) = take 200 (new' @ old)" ..
  from Cons.IH [OF this] show ?case by simp
qed

lemma length_messages_step:
  "length (messages s) \<le> 200 \<Longrightarrow> length (messages (step P pr s a)) \<le> 200"
  using messages_step [of P pr s a] by auto

lemma length_messages_run:
  "length (messages s) \<le> 200 \<Longrightarrow> length (messages (run P pr s as)) \<le> 200"
  by (induction as arbitrary: s) (simp_all add: length_messages_step)

lemma take_append_take: "take n (xs @ take n ys) = take n (xs @ ys)"
  by (simp add: min_def)

lemma messages_fold_pushMessage:
  "messages (fold pushMessage ms s) =
     (if ms = [] then messages s else take 200 (rev ms @ messages s))"
proof (induction ms arbitrary: s)
  case Nil
  show ?case by simp
next
  case (Cons m ms)
  have "messages (fold pushMessage (m # ms) s) = messages (fold pushMessage ms (pushMessage m s))"
    by simp
  also have "\<dots> = take 200 (rev ms @ take 200 (m # messages s))"
    by (simp add: Cons.IH pushMessage_def)
  also have "\<dots> = take 200 (rev (m # ms) @ messages s)"
    by (simp only: take_append_take rev.simps append_assoc append_Cons append_Nil)
  finally show ?case by simp
qed

lemma run_append: "run P pr s (as @ bs) = run P pr (run P pr s as) bs"
  by (induction as arbitrary: s) simp_all

subsection \<open>The reconnect counter under every operation\<close>

lemma attemptsRef_cleanup: "attemptsRef (cleanup s) = attemptsRef s"
  by (simp add: cleanup_def Let_def split: option.splits)

lemma attempts_cleanup: "attempts (cleanup s) = attempts s"
  by (simp add: cleanup_def Let_def split: option.splits)

lemma attemptsRef_connect: "attemptsRef (connect P pr s) = attemptsRef s"
  by (simp add: connect_def Let_def pushMessage_def attemptsRef_cleanup split: option.splits)

lemma attempts_connect: "attempts (connect P pr s) = attempts s"
  by (simp add: connect_def Let_def pushMessage_def attempts_cleanup split: option.splits)

lemma attemptsRef_retry: "attemptsRef (retry P pr s) = attemptsRef s"
  by (simp add: retry_def attemptsRef_connect)

lemma attempts_retry: "attempts (retry P pr s) = attempts s"
  by (simp add: retry_def attempts_connect)

lemma counters_onopen: "attemptsRef (onopen s) = 0 \<and> attempts (onopen s) = 0"
  by (simp add: onopen_def pushMessage_def)

lemma counters_onerror:
  "attemptsRef (onerror pr s) = attemptsRef s + 1 \<and> attempts (onerror pr s) = attemptsRef s + 1"
  by (simp add: onerror_def pushMessage_def Let_def)

lemma counters_set_readyState:
  "attemptsRef (set_readyState h r s) = attemptsRef s \<and>
   attempts (set_readyState h r s) = attempts s"
  by (simp add: set_readyState_def)

lemma counters_dispatch:
  "attemptsRef (dispatch P pr f s) =
     (if event_type f = ''open'' then 0
      else if event_type f = ''error'' then attemptsRef s + 1
      else attemptsRef s) \<and>
   attempts (dispatch P pr f s) =
     (if event_type f = ''open'' then 0
      else if event_type f = ''error'' then attemptsRef s + 1
      else attempts s)"
  by (simp add: dispatch_def listener_def counters_onopen counters_onerror)
     (simp add: onmessage_def on_tick_def on_heartbeat_def on_update_def pushMessage_def)

lemma counters_sendManual:
  "attemptsRef (sendManual P s) = attemptsRef s \<and> attempts (sendManual P s) = attempts s"
  by (simp add: sendManual_def pushMessage_def split: sum.splits)

lemma counters_sendManual_resume:
  "attemptsRef (sendManual_resume P out s) = attemptsRef s \<and>
   attempts (sendManual_resume P out s) = attempts s"
  by (simp add: sendManual_resume_def pushMessage_def Let_def
        split: sum.splits fetch_outcome.splits)

lemma attemptsRef_step:
  "attemptsRef (step P pr s a) =
     (case transition_of s a of
        None \<Rightarrow> attemptsRef s
      | Some Opened \<Rightarrow> 0
      | Some Errored \<Rightarrow> attemptsRef s + 1)"
  by (cases a)
     (simp_all add: attemptsRef_cleanup attemptsRef_connect attemptsRef_retry counters_onopen
        counters_onerror counters_set_readyState counters_dispatch counters_sendManual
        counters_sendManual_resume)

lemma attempts_step:
  "attempts s = attemptsRef s \<Longrightarrow> attempts (step P pr s a) = attemptsRef (step P pr s a)"
  by (cases a)
     (simp_all add: attemptsRef_cleanup attemptsRef_connect attemptsRef_retry counters_onopen
        counters_onerror counters_set_readyState counters_dispatch counters_sendManual
        counters_sendManual_resume attempts_cleanup attempts_connect attempts_retry)

lemma attempts_run:
  "attempts s = attemptsRef s \<Longrightarrow> attempts (run P pr s as) = attemptsRef (run P pr s as)"
  by (induction as arbitrary: s) (simp_all add: attempts_step)

lemma errors_since_open_later:
  "Opened \<in> set ts \<Longrightarrow> errors_since_open (t # ts) = errors_since_open ts"
  by (simp add: errors_since_open_def takeWhile_append1 [of Opened])

lemma only_Errored: "Opened \<notin> set ts \<Longrightarrow> \<forall>t\<in>set (rev ts). t = Errored"
  by (metis set_rev transition.exhaust)

lemma errors_since_open_all:
  assumes "Opened \<notin> set ts"
  shows "errors_since_open ts = length ts"
proof -
  have "takeWhile (\<lambda>t. t = Errored) (rev ts) = rev ts"
    using only_Errored [OF assms] by (simp only: takeWhile_eq_all_conv)
  then show ?thesis by (simp only: errors_since_open_def length_rev)
qed

lemma errors_since_open_Opened:
  assumes "Opened \<notin> set ts"
  shows "errors_since_open (Opened # ts) = length ts"
proof -
  have "takeWhile (\<lambda>t. t = Errored) (rev ts @ [Opened]) =
          rev ts @ takeWhile (\<lambda>t. t = Errored) [Opened]"
    using only_Errored [OF assms] by (intro takeWhile_append2) blast
  also have "\<dots> = rev ts" by simp
  finally show ?thesis by (simp only: errors_since_open_def rev.simps length_rev)
qed

lemma attemptsRef_run:
  "attemptsRef (run P pr s as) =
     (if Opened \<in> set (transitions P pr s as)
      then errors_since_open (transitions P pr s as)
      else attemptsRef s + length (transitions P pr s as))"
proof (induction as arbitrary: s)
  case Nil
  show ?case by simp
next
  case (Cons a as)
  let ?ts = "transitions P pr (step P pr s a) as"
  show ?case
  proof (cases "transition_of s a")
    case None
    then show ?thesis by (simp add: Cons.IH attemptsRef_step)
  next
    case (Some t)
    show ?thesis
    proof (cases "Opened \<in> set ?ts")
      case True
      with Some show ?thesis
        by (simp add: Cons.IH errors_since_open_later)
    next
      case False
      with Some show ?thesis
        by (cases t) (simp_all add: Cons.IH attemptsRef_step errors_since_open_Opened)
    qed
  qed
qed

subsection \<open>The handles\<close>

text \<open>At most one handle is live, the one \<open>esRef\<close> holds.\<close>

lemma one_handle_iff:
  "one_handle s \<longleftrightarrow>
     (\<forall>h. esRef s = Some h \<longrightarrow> h < length (heap s)) \<and>
     (\<forall>h. live s h \<longrightarrow> esRef s = Some h)"
  by (auto simp: one_handle_def live_def list_all_iff split: option.splits)

lemma cleanup_closes:
  "esRef s = Some h \<Longrightarrow> h < length (heap s) \<Longrightarrow>
   readyState (heap (cleanup s) ! h) = CLOSED"
  by (simp add: cleanup_def Let_def)

lemma cleanup_status:
  "statusText (cleanup s) = ''closed'' \<and> connected (cleanup s) = False"
  by (simp add: cleanup_def Let_def split: option.splits)

lemma cleanup_no_handle:
  "esRef (cleanup s) = None \<and> timers (cleanup s) = timers s \<and>
   length (heap (cleanup s)) = length (heap s)"
  by (simp add: cleanup_def Let_def split: option.splits)

lemma heap_cleanup:
  "heap (cleanup s) =
     (case esRef s of
        None \<Rightarrow> heap s
      | Some k \<Rightarrow> (heap s)[k := (heap s ! k)\<lparr>readyState := CLOSED\<rparr>])"
  by (simp add: cleanup_def Let_def split: option.splits)

lemma cleanup_none_live:
  assumes o: "one_handle s"
  shows "\<not> live (cleanup s) h"
proof (cases "esRef s")
  case None
  then have "live (cleanup s) h = live s h"
    by (simp add: live_def heap_cleanup)
  moreover from o None have "\<not> live s h"
    by (simp add: one_handle_iff)
  ultimately show ?thesis by simp
next
  case (Some k)
  with o have k: "k < length (heap s)" by (simp add: one_handle_iff)
  show ?thesis
  proof (cases "h = k")
    case True
    with Some k show ?thesis by (simp add: live_def heap_cleanup)
  next
    case False
    with Some have "live (cleanup s) h = live s h"
      by (simp add: live_def heap_cleanup)
    moreover from o Some False have "\<not> live s h"
      by (auto simp: one_handle_iff)
    ultimately show ?thesis by simp
  qed
qed

lemma one_handle_cleanup: "one_handle s \<Longrightarrow> one_handle (cleanup s)"
  using cleanup_none_live [of s] by (simp add: one_handle_iff cleanup_no_handle)

lemma one_handle_connect: "one_handle s \<Longrightarrow> one_handle (connect P pr s)"
proof -
  assume "one_handle s"
  then have n: "\<And>h. \<not> live (cleanup s) h" by (rule cleanup_none_live)
  have e: "esRef (cleanup s) = None" by (simp add: cleanup_no_handle)
  show ?thesis
  proof (cases "new_EventSource P (fullUrl @ ''/sse'')")
    case (Some err)
    with n e show ?thesis
      by (simp add: one_handle_iff connect_def Let_def pushMessage_def live_def)
  next
    case None
    with n e show ?thesis
      by (auto simp: one_handle_iff connect_def Let_def live_def nth_append
            split: if_splits)
  qed
qed

lemma one_handle_retry: "one_handle s \<Longrightarrow> one_handle (retry P pr s)"
  by (simp add: retry_def one_handle_connect)

lemma one_handle_fields:
  "heap t = heap s \<Longrightarrow> esRef t = esRef s \<Longrightarrow> one_handle t = one_handle s"
  by (simp add: one_handle_iff live_def)

lemma one_handle_onopen: "one_handle (onopen s) = one_handle s"
  by (rule one_handle_fields) (simp_all add: onopen_def pushMessage_def)

lemma one_handle_onerror: "one_handle (onerror pr s) = one_handle s"
  by (rule one_handle_fields) (simp_all add: onerror_def pushMessage_def Let_def)

lemma one_handle_pushMessage: "one_handle (pushMessage m s) = one_handle s"
  by (rule one_handle_fields) (simp_all add: pushMessage_def)

lemma one_handle_dispatch: "one_handle (dispatch P pr f s) = one_handle s"
  by (simp add: dispatch_def listener_def one_handle_onopen one_handle_onerror
        onmessage_def on_tick_def on_heartbeat_def on_update_def one_handle_pushMessage)

lemma one_handle_sendManual: "one_handle (sendManual P s) = one_handle s"
  by (rule one_handle_fields) (simp_all add: sendManual_def pushMessage_def split: sum.splits)

lemma one_handle_sendManual_resume: "one_handle (sendManual_resume P out s) = one_handle s"
  by (rule one_handle_fields)
     (simp_all add: sendManual_resume_def pushMessage_def Let_def
        split: sum.splits fetch_outcome.splits)

lemma one_handle_set_readyState:
  assumes o: "one_handle s" and l: "live s h"
  shows "one_handle (set_readyState h r s)"
proof -
  let ?t = "set_readyState h r s"
  from o l have e: "esRef s = Some h" by (simp add: one_handle_iff)
  have f: "length (heap ?t) = length (heap s)" "esRef ?t = esRef s"
    by (simp_all add: set_readyState_def)
  have "\<And>k. live ?t k \<Longrightarrow> esRef s = Some k"
  proof -
    fix k
    assume a: "live ?t k"
    show "esRef s = Some k"
    proof (cases "k = h")
      case True
      with e show ?thesis by simp
    next
      case False
      with a have "live s k" by (simp add: live_def set_readyState_def)
      with o show ?thesis by (simp add: one_handle_iff)
    qed
  qed
  moreover from o have "\<forall>k. esRef s = Some k \<longrightarrow> k < length (heap s)"
    by (simp add: one_handle_iff)
  ultimately show ?thesis unfolding one_handle_iff f by blast
qed

lemma one_handle_expire:
  "one_handle (s\<lparr>timers := ts\<rparr>) = one_handle s"
  by (rule one_handle_fields) simp_all

lemma one_handle_inputs:
  "one_handle (s\<lparr>manualPayload := t\<rparr>) = one_handle s \<and>
   one_handle (s\<lparr>autoConnect := b\<rparr>) = one_handle s"
  by (simp add: one_handle_fields [of "s\<lparr>manualPayload := t\<rparr>" s]
        one_handle_fields [of "s\<lparr>autoConnect := b\<rparr>" s])

lemma one_handle_step: "one_handle s \<Longrightarrow> one_handle (step P pr s a)"
  by (cases a)
     (simp_all add: one_handle_connect one_handle_cleanup one_handle_sendManual
        one_handle_onopen one_handle_onerror one_handle_set_readyState one_handle_dispatch
        one_handle_retry one_handle_expire one_handle_sendManual_resume one_handle_inputs)

lemma one_handle_run: "one_handle s \<Longrightarrow> one_handle (run P pr s as)"
  by (induction as arbitrary: s) (simp_all add: one_handle_step)

lemma one_handle_init: "one_handle init"
  by (simp add: one_handle_def init_def)

subsection \<open>C1: disconnecting while a backoff timer is pending\<close>

text \<open>
  Claim C1 says that after a disconnect during the backoff no transition into Connecting
  occurs when the delay elapses. \<open>cleanup\<close> releases the handle and clears
  \<open>esRef\<close>, but the timer stays pending (nothing calls \<open>clearTimeout\<close>), and its
  callback reconnects exactly when it finds no handle: after connect, an error (status
  \<open>retrying in 2s\<close>, one timer of 2000 ms) and a disconnect (status \<open>closed\<close>, no
  handle, the timer still pending), the timer fires and the component is connecting
  again, with a new live handle.
\<close>

theorem disconnect_during_backoff_counterexample:
  "statusText (run example_platform example_props init
      [ClickConnect, EsError 0 False]) = ''retrying in 2s'' \<and>
   timers (run example_platform example_props init
      [ClickConnect, EsError 0 False]) = [2000] \<and>
   statusText (run example_platform example_props init
      [ClickConnect, EsError 0 False, ClickDisconnect]) = ''closed'' \<and>
   esRef (run example_platform example_props init
      [ClickConnect, EsError 0 False, ClickDisconnect]) = None \<and>
   timers (run example_platform example_props init
      [ClickConnect, EsError 0 False, ClickDisconnect]) = [2000] \<and>
   statusText (run example_platform example_props init
      [ClickConnect, EsError 0 False, ClickDisconnect, TimerFires 0]) = ''connecting...'' \<and>
   esRef (run example_platform example_props init
      [ClickConnect, EsError 0 False, ClickDisconnect, TimerFires 0]) = Some 1 \<and>
   live (run example_platform example_props init
      [ClickConnect, EsError 0 False, ClickDisconnect, TimerFires 0]) 1"
  by (simp add: component_defs example_defs String_nat_digit)

text \<open>What a successful \<open>connect\<close> creates, and what a firing timer does.\<close>

lemma connect_created:
  "new_EventSource P (fullUrl @ ''/sse'') = None \<Longrightarrow>
   statusText (connect P pr s) = ''connecting...'' \<and>
   esRef (connect P pr s) = Some (length (heap s)) \<and>
   live (connect P pr s) (length (heap s)) \<and>
   length (heap (connect P pr s)) = Suc (length (heap s)) \<and>
   heap (connect P pr s) ! length (heap s) =
     \<lparr> es_url = fullUrl @ ''/sse'', withCredentials = False, readyState = CONNECTING \<rparr>"
  by (simp add: connect_def Let_def cleanup_no_handle live_def nth_append)

lemma timer_fires:
  "k < length (timers s) \<Longrightarrow>
   step P pr s (TimerFires k) =
     (if (case esRef s of None \<Rightarrow> True | Some j \<Rightarrow> readyState (heap s ! j) = CLOSED)
      then connect P pr (s\<lparr>timers := take k (timers s) @ drop (Suc k) (timers s)\<rparr>)
      else s\<lparr>timers := take k (timers s) @ drop (Suc k) (timers s)\<rparr>)"
  by (simp add: retry_def split: option.splits)

text \<open>
  Claim C1, amended. A disconnect closes and releases the handle (its \<open>readyState\<close> is
  \<open>CLOSED\<close>, no handle is tracked, and in a state reached from the initial one no
  handle at all is live), clears the connected flag and sets the status to \<open>closed\<close>,
  but leaves every pending backoff timer in place. When such a timer fires after the
  disconnect, its callback finds no handle and runs \<open>connect\<close>: the component enters
  Connecting (status \<open>connecting...\<close>, a fresh live handle, when the constructor does
  not throw). In any state, a firing timer runs \<open>connect\<close> exactly when no handle is
  tracked or the tracked handle is \<open>CLOSED\<close>, and otherwise only expires; so a timer
  that only expired (the constructor not throwing) found a tracked handle that was not
  \<open>CLOSED\<close>.
\<close>

theorem backoff_timer_after_disconnect:
  "timers (step P pr s ClickDisconnect) = timers s \<and>
   esRef (step P pr s ClickDisconnect) = None \<and>
   statusText (step P pr s ClickDisconnect) = ''closed'' \<and>
   connected (step P pr s ClickDisconnect) = False \<and>
   (esRef s = Some h \<and> h < length (heap s) \<longrightarrow>
      readyState (heap (step P pr s ClickDisconnect) ! h) = CLOSED) \<and>
   \<not> live (step P pr (run P pr init as) ClickDisconnect) h \<and>
   (k < length (timers s) \<longrightarrow>
      step P pr (step P pr s ClickDisconnect) (TimerFires k) =
        connect P pr ((cleanup s)\<lparr>timers := take k (timers s) @ drop (Suc k) (timers s)\<rparr>)) \<and>
   (k < length (timers s) \<and> new_EventSource P (fullUrl @ ''/sse'') = None \<longrightarrow>
      statusText (step P pr (step P pr s ClickDisconnect) (TimerFires k)) = ''connecting...'' \<and>
      esRef (step P pr (step P pr s ClickDisconnect) (TimerFires k)) = Some (length (heap s)) \<and>
      live (step P pr (step P pr s ClickDisconnect) (TimerFires k)) (length (heap s))) \<and>
   (k < length (timers s) \<longrightarrow>
      step P pr s (TimerFires k) =
        (if (case esRef s of None \<Rightarrow> True | Some j \<Rightarrow> readyState (heap s ! j) = CLOSED)
         then connect P pr (s\<lparr>timers := take k (timers s) @ drop (Suc k) (timers s)\<rparr>)
         else s\<lparr>timers := take k (timers s) @ drop (Suc k) (timers s)\<rparr>)) \<and>
   (k < length (timers s) \<and> esRef s = Some h \<and> live s h \<longrightarrow>
      step P pr s (TimerFires k) =
        s\<lparr>timers := take k (timers s) @ drop (Suc k) (timers s)\<rparr>) \<and>
   (k < length (timers s) \<and> new_EventSource P (fullUrl @ ''/sse'') = None \<and>
    step P pr s (TimerFires k) =
      s\<lparr>timers := take k (timers s) @ drop (Suc k) (timers s)\<rparr> \<longrightarrow>
      (\<exists>j. esRef s = Some j \<and> readyState (heap s ! j) \<noteq> CLOSED))"
proof -
  let ?t = "take k (timers s) @ drop (Suc k) (timers s)"
  let ?g = "case esRef s of None \<Rightarrow> True | Some j \<Rightarrow> readyState (heap s ! j) = CLOSED"
  have a: "timers (step P pr s ClickDisconnect) = timers s \<and>
           esRef (step P pr s ClickDisconnect) = None \<and>
           statusText (step P pr s ClickDisconnect) = ''closed'' \<and>
           connected (step P pr s ClickDisconnect) = False"
    by (simp add: cleanup_no_handle cleanup_status)
  have a': "esRef s = Some h \<and> h < length (heap s) \<longrightarrow>
              readyState (heap (step P pr s ClickDisconnect) ! h) = CLOSED"
    by (simp add: cleanup_closes)
  have "one_handle (run P pr init as)"
    by (rule one_handle_run) (rule one_handle_init)
  then have a'': "\<not> live (step P pr (run P pr init as) ClickDisconnect) h"
    by (simp add: cleanup_none_live)
  have b: "k < length (timers s) \<longrightarrow>
             step P pr (step P pr s ClickDisconnect) (TimerFires k) =
               connect P pr ((cleanup s)\<lparr>timers := ?t\<rparr>)"
    by (simp add: cleanup_no_handle retry_def)
  have c: "new_EventSource P (fullUrl @ ''/sse'') = None \<longrightarrow>
             statusText (connect P pr ((cleanup s)\<lparr>timers := ?t\<rparr>)) = ''connecting...'' \<and>
             esRef (connect P pr ((cleanup s)\<lparr>timers := ?t\<rparr>)) = Some (length (heap s)) \<and>
             live (connect P pr ((cleanup s)\<lparr>timers := ?t\<rparr>)) (length (heap s))"
    using connect_created [where P = P and pr = pr and s = "(cleanup s)\<lparr>timers := ?t\<rparr>"]
    by (simp add: cleanup_no_handle)
  have d: "k < length (timers s) \<longrightarrow>
             step P pr s (TimerFires k) =
               (if ?g then connect P pr (s\<lparr>timers := ?t\<rparr>) else s\<lparr>timers := ?t\<rparr>)"
    using timer_fires [of k s P pr] by blast
  have e: "k < length (timers s) \<and> esRef s = Some h \<and> live s h \<longrightarrow>
             step P pr s (TimerFires k) = s\<lparr>timers := ?t\<rparr>"
    by (simp add: retry_def live_def)
  have f: "k < length (timers s) \<and> new_EventSource P (fullUrl @ ''/sse'') = None \<and>
           step P pr s (TimerFires k) = s\<lparr>timers := ?t\<rparr> \<longrightarrow>
             (\<exists>j. esRef s = Some j \<and> readyState (heap s ! j) \<noteq> CLOSED)"
  proof (intro impI, elim conjE)
    assume k: "k < length (timers s)"
      and n: "new_EventSource P (fullUrl @ ''/sse'') = None"
      and u: "step P pr s (TimerFires k) = s\<lparr>timers := ?t\<rparr>"
    have "\<not> ?g"
    proof
      assume ?g
      with k d u have "connect P pr (s\<lparr>timers := ?t\<rparr>) = s\<lparr>timers := ?t\<rparr>" by simp
      then have "length (heap (connect P pr (s\<lparr>timers := ?t\<rparr>))) =
                   length (heap (s\<lparr>timers := ?t\<rparr>))"
        by simp
      with connect_created [OF n, of pr "s\<lparr>timers := ?t\<rparr>"] show False by simp
    qed
    then show "\<exists>j. esRef s = Some j \<and> readyState (heap s ! j) \<noteq> CLOSED"
      by (cases "esRef s") simp_all
  qed
  from a a' a'' b c d e f show ?thesis by simp
qed

theorem backoff_timer_after_disconnect_witness:
  "0 < length (timers (run example_platform example_props init
         [ClickConnect, EsError 0 False])) \<and>
   new_EventSource example_platform (fullUrl @ ''/sse'') = None \<and>
   esRef (run example_platform example_props init [ClickConnect, EsError 0 False]) = Some 0 \<and>
   live (run example_platform example_props init [ClickConnect, EsError 0 False]) 0 \<and>
   statusText (step example_platform example_props
     (run example_platform example_props init [ClickConnect, EsError 0 False])
     ClickDisconnect) = ''closed'' \<and>
   readyState (heap (step example_platform example_props
     (run example_platform example_props init [ClickConnect, EsError 0 False])
     ClickDisconnect) ! 0) = CLOSED \<and>
   timers (step example_platform example_props
     (run example_platform example_props init [ClickConnect, EsError 0 False])
     ClickDisconnect) = [2000] \<and>
   statusText (step example_platform example_props
     (step example_platform example_props
        (run example_platform example_props init [ClickConnect, EsError 0 False])
        ClickDisconnect)
     (TimerFires 0)) = ''connecting...'' \<and>
   esRef (step example_platform example_props
     (step example_platform example_props
        (run example_platform example_props init [ClickConnect, EsError 0 False])
        ClickDisconnect)
     (TimerFires 0)) = Some 1 \<and>
   timers (step example_platform example_props
     (run example_platform example_props init [ClickConnect, EsError 0 False])
     (TimerFires 0)) = [] \<and>
   esRef (step example_platform example_props
     (run example_platform example_props init [ClickConnect, EsError 0 False])
     (TimerFires 0)) = Some 0 \<and>
   (\<exists>j. esRef (run example_platform example_props init [ClickConnect, EsError 0 False]) =
          Some j \<and>
        readyState (heap (run example_platform example_props init
          [ClickConnect, EsError 0 False]) ! j) \<noteq> CLOSED) \<and>
   0 < length (timers (run example_platform example_props init
         [ClickConnect, EsError 0 True])) \<and>
   readyState (heap (run example_platform example_props init
         [ClickConnect, EsError 0 True]) ! 0) = CLOSED \<and>
   esRef (step example_platform example_props
     (run example_platform example_props init [ClickConnect, EsError 0 True])
     (TimerFires 0)) = Some 1 \<and>
   statusText (step example_platform example_props
     (run example_platform example_props init [ClickConnect, EsError 0 True])
     (TimerFires 0)) = ''connecting...''"
proof -
  let ?s = "run example_platform example_props init [ClickConnect, EsError 0 False]"
  let ?u = "run example_platform example_props init [ClickConnect, EsError 0 True]"
  note thm_s = backoff_timer_after_disconnect
    [where P = example_platform and pr = example_props and s = ?s and k = 0 and h = 0
       and as = "[]"]
  note thm_u = backoff_timer_after_disconnect
    [where P = example_platform and pr = example_props and s = ?u and k = 0 and h = 0
       and as = "[]"]
  have s: "timers ?s = [2000] \<and> esRef ?s = Some 0 \<and> live ?s 0 \<and> length (heap ?s) = 1 \<and>
           readyState (heap ?s ! 0) = CONNECTING"
    by (simp add: component_defs example_defs String_nat_digit)
  have u: "timers ?u = [2000] \<and> esRef ?u = Some 0 \<and> length (heap ?u) = 1 \<and>
           readyState (heap ?u ! 0) = CLOSED \<and> attemptsRef ?u = 1"
    by (simp add: component_defs example_defs String_nat_digit)
  from s have k: "0 < length (timers ?s)" and hs: "esRef ?s = Some 0 \<and> 0 < length (heap ?s)"
    by simp_all
  from u have ku: "0 < length (timers ?u)" by simp
  have n: "new_EventSource example_platform (fullUrl @ ''/sse'') = None"
    by (simp add: example_defs)
  from thm_s have 1: "statusText (step example_platform example_props ?s ClickDisconnect) =
                        ''closed'' \<and>
                      timers (step example_platform example_props ?s ClickDisconnect) =
                        timers ?s"
    by blast
  from hs thm_s
  have 2: "readyState (heap (step example_platform example_props ?s ClickDisconnect) ! 0) =
             CLOSED"
    by blast
  from k n thm_s
  have 3: "statusText (step example_platform example_props
             (step example_platform example_props ?s ClickDisconnect) (TimerFires 0)) =
             ''connecting...'' \<and>
           esRef (step example_platform example_props
             (step example_platform example_props ?s ClickDisconnect) (TimerFires 0)) =
             Some (length (heap ?s))"
    by blast
  from k s thm_s
  have 4: "step example_platform example_props ?s (TimerFires 0) =
             ?s\<lparr>timers := take 0 (timers ?s) @ drop (Suc 0) (timers ?s)\<rparr>"
    by blast
  with k n thm_s
  have 5: "\<exists>j. esRef ?s = Some j \<and> readyState (heap ?s ! j) \<noteq> CLOSED"
    by blast
  from 4 s have 6: "timers (step example_platform example_props ?s (TimerFires 0)) = [] \<and>
                    esRef (step example_platform example_props ?s (TimerFires 0)) = Some 0"
    by simp
  from ku thm_u
  have "step example_platform example_props ?u (TimerFires 0) =
          (if (case esRef ?u of None \<Rightarrow> True | Some j \<Rightarrow> readyState (heap ?u ! j) = CLOSED)
           then connect example_platform example_props
                  (?u\<lparr>timers := take 0 (timers ?u) @ drop (Suc 0) (timers ?u)\<rparr>)
           else ?u\<lparr>timers := take 0 (timers ?u) @ drop (Suc 0) (timers ?u)\<rparr>)"
    by blast
  with u have "step example_platform example_props ?u (TimerFires 0) =
                 connect example_platform example_props (?u\<lparr>timers := []\<rparr>)"
    by simp
  with u connect_created [OF n, of example_props "?u\<lparr>timers := []\<rparr>"]
  have 7: "esRef (step example_platform example_props ?u (TimerFires 0)) = Some 1 \<and>
           statusText (step example_platform example_props ?u (TimerFires 0)) =
             ''connecting...''"
    by simp
  from k n s 1 2 3 5 6 ku u 7 show ?thesis by simp
qed

subsection \<open>C2: the backoff delay\<close>

text \<open>
  Claim C2 gives the delay as \<open>min(30000, 1000*2^min(n,6))\<close> and lists 1000 ms as its
  value for the first attempt. The formula is the code's, the list is not the formula's:
  after the first error the counter is 1 and the timer is scheduled with 2000 ms.
\<close>

theorem backoff_first_delay_counterexample:
  "attemptsRef (run example_platform example_props init [ClickConnect, EsError 0 False]) = 1 \<and>
   timers (run example_platform example_props init [ClickConnect, EsError 0 False]) = [2000] \<and>
   backoff 1 \<noteq> 1000"
  by (simp add: component_defs example_defs String_nat_digit)

text \<open>From the fifth attempt on the cap applies: \<open>1000 * 2^5 = 32000\<close>.\<close>

lemma backoff_capped: "5 \<le> n \<Longrightarrow> backoff n = 30000"
proof -
  assume "5 \<le> n"
  then have "n = 5 \<or> 6 \<le> n" by arith
  then show ?thesis
  proof
    assume "n = 5"
    then show ?thesis by (simp add: backoff_def)
  next
    assume "6 \<le> n"
    then have "min 6 n = 6" by simp
    then show ?thesis by (simp add: backoff_def)
  qed
qed

lemma upt_1_11: "[1..<11] = [1, 2, 3, 4, 5, 6, 7, 8, 9, 10 :: nat]"
  by (simp add: upt_rec)

text \<open>
  Claim C2, amended. For every attempt number \<open>n\<close> the delay is
  \<open>min(30000, 1000*2^min(n,6))\<close> milliseconds; for \<open>n = 1..10\<close> this is 2000, 4000,
  8000, 16000 and then 30000 six times, and 30000 for every \<open>n \<ge> 5\<close>. A transport error
  on a live handle increments the counter and, when \<open>reconnectOnError\<close> is set,
  schedules one timer with the delay of the new counter value; without
  \<open>reconnectOnError\<close> it schedules none.
\<close>

theorem backoff_schedule:
  "backoff n = min 30000 (1000 * 2 ^ min n 6) \<and>
   map backoff [1..<11] =
     [2000, 4000, 8000, 16000, 30000, 30000, 30000, 30000, 30000, 30000] \<and>
   (5 \<le> n \<longrightarrow> backoff n = 30000) \<and>
   (live s h \<and> reconnectOnError pr \<longrightarrow>
      attemptsRef (step P pr s (EsError h fatal)) = attemptsRef s + 1 \<and>
      timers (step P pr s (EsError h fatal)) = timers s @ [backoff (attemptsRef s + 1)]) \<and>
   (live s h \<and> \<not> reconnectOnError pr \<longrightarrow>
      timers (step P pr s (EsError h fatal)) = timers s)"
proof -
  have a: "backoff n = min 30000 (1000 * 2 ^ min n 6)"
    by (simp add: backoff_def min.commute)
  have b: "map backoff [1..<11] =
             [2000, 4000, 8000, 16000, 30000, 30000, 30000, 30000, 30000, 30000]"
    unfolding upt_1_11 by (simp add: backoff_def)
  have c: "live s h \<and> reconnectOnError pr \<longrightarrow>
      attemptsRef (step P pr s (EsError h fatal)) = attemptsRef s + 1 \<and>
      timers (step P pr s (EsError h fatal)) = timers s @ [backoff (attemptsRef s + 1)]"
    by (simp add: onerror_def set_readyState_def pushMessage_def Let_def)
  have d: "live s h \<and> \<not> reconnectOnError pr \<longrightarrow>
      timers (step P pr s (EsError h fatal)) = timers s"
    by (simp add: onerror_def set_readyState_def pushMessage_def Let_def)
  from a b c d backoff_capped show ?thesis by blast
qed

theorem backoff_schedule_witness:
  "(5::nat) \<le> 7 \<and> backoff 7 = 30000 \<and>
   live (run example_platform example_props init [ClickConnect]) 0 \<and>
   reconnectOnError example_props \<and>
   timers (step example_platform example_props
      (run example_platform example_props init [ClickConnect]) (EsError 0 True)) = [2000] \<and>
   live (run example_platform (example_props\<lparr>reconnectOnError := False\<rparr>) init [ClickConnect]) 0 \<and>
   timers (step example_platform (example_props\<lparr>reconnectOnError := False\<rparr>)
      (run example_platform (example_props\<lparr>reconnectOnError := False\<rparr>) init [ClickConnect])
      (EsError 0 True)) = []"
proof -
  let ?s = "run example_platform example_props init [ClickConnect]"
  let ?q = "example_props\<lparr>reconnectOnError := False\<rparr>"
  let ?u = "run example_platform ?q init [ClickConnect]"
  have s: "live ?s 0 \<and> timers ?s = [] \<and> attemptsRef ?s = 0"
    by (simp add: component_defs example_defs)
  have u: "live ?u 0 \<and> timers ?u = []"
    by (simp add: component_defs example_defs)
  have r: "reconnectOnError example_props" and q: "\<not> reconnectOnError ?q"
    by (simp_all add: example_defs)
  have n: "(5::nat) \<le> 7" by simp
  from n backoff_schedule [of 7 ?s 0 example_props example_platform True]
  have 1: "backoff 7 = 30000" by blast
  from s r backoff_schedule [of 7 ?s 0 example_props example_platform True]
  have "timers (step example_platform example_props ?s (EsError 0 True)) =
          timers ?s @ [backoff (attemptsRef ?s + 1)]"
    by blast
  with s have 2: "timers (step example_platform example_props ?s (EsError 0 True)) = [2000]"
    by (simp add: backoff_def)
  from u q backoff_schedule [of 7 ?u 0 ?q example_platform True]
  have "timers (step example_platform ?q ?u (EsError 0 True)) = timers ?u"
    by blast
  with u have 3: "timers (step example_platform ?q ?u (EsError 0 True)) = []" by simp
  from n 1 s r 2 u 3 show ?thesis by simp
qed

subsection \<open>C3: the reconnect counter\<close>

text \<open>
  Claim C3. After every sequence of actions from the initial state, the reconnect counter
  (the reference \<open>attemptsRef\<close> and the state cell \<open>attempts\<close>) equals the number of
  transitions into Erroring since the most recent transition into Open; a transition into
  Erroring adds exactly 1 to it, a transition into Open sets it to 0, and no other action
  changes it. The transitions are the runs of \<open>onerror\<close> and \<open>onopen\<close>, whether the
  browser's own error or open event runs them or a frame the server names \<open>error\<close> or
  \<open>open\<close>.
\<close>

theorem reconnect_counter:
  "attemptsRef (run P pr init as) = errors_since_open (transitions P pr init as) \<and>
   attempts (run P pr init as) = errors_since_open (transitions P pr init as) \<and>
   attemptsRef (step P pr s a) =
     (case transition_of s a of
        None \<Rightarrow> attemptsRef s
      | Some Opened \<Rightarrow> 0
      | Some Errored \<Rightarrow> attemptsRef s + 1)"
proof -
  have a: "attemptsRef (run P pr init as) = errors_since_open (transitions P pr init as)"
    by (simp add: attemptsRef_run errors_since_open_all) (simp add: init_def)
  have "attempts init = attemptsRef init" by (simp add: init_def)
  then have b: "attempts (run P pr init as) = attemptsRef (run P pr init as)"
    by (rule attempts_run)
  from a b attemptsRef_step [of P pr s a] show ?thesis by simp
qed

text \<open>Two instances of C3. In the first, an error and an open are not delivered because
  the handle was closed by the failure before them; in the second, two frames named
  \<open>error\<close> count as transitions into Erroring and a frame named \<open>tick\<close> does not.\<close>

theorem reconnect_counter_witness:
  "transitions example_platform example_props init
     [ClickConnect, EsError 0 False, EsError 0 False, EsOpen 0, EsError 0 True,
      EsError 0 True, EsOpen 0] = [Errored, Errored, Opened, Errored] \<and>
   attemptsRef (run example_platform example_props init
     [ClickConnect, EsError 0 False, EsError 0 False, EsOpen 0, EsError 0 True,
      EsError 0 True, EsOpen 0]) = 1 \<and>
   attempts (run example_platform example_props init
     [ClickConnect, EsError 0 False, EsError 0 False, EsOpen 0, EsError 0 True,
      EsError 0 True, EsOpen 0]) = 1 \<and>
   transitions example_platform example_props init
     [ClickConnect, EsError 0 False, EsOpen 0,
      EsFrame 0 \<lparr> lastEventId = ''1'', eventName = Some ''error'', rawPayload = ''x'' \<rparr>,
      EsFrame 0 \<lparr> lastEventId = ''2'', eventName = Some ''tick'', rawPayload = ''y'' \<rparr>,
      EsFrame 0 \<lparr> lastEventId = ''3'', eventName = Some ''error'', rawPayload = ''z'' \<rparr>] =
     [Errored, Opened, Errored, Errored] \<and>
   attemptsRef (run example_platform example_props init
     [ClickConnect, EsError 0 False, EsOpen 0,
      EsFrame 0 \<lparr> lastEventId = ''1'', eventName = Some ''error'', rawPayload = ''x'' \<rparr>,
      EsFrame 0 \<lparr> lastEventId = ''2'', eventName = Some ''tick'', rawPayload = ''y'' \<rparr>,
      EsFrame 0 \<lparr> lastEventId = ''3'', eventName = Some ''error'', rawPayload = ''z'' \<rparr>]) = 2"
proof -
  let ?as = "[ClickConnect, EsError 0 False, EsError 0 False, EsOpen 0, EsError 0 True,
              EsError 0 True, EsOpen 0]"
  let ?bs = "[ClickConnect, EsError 0 False, EsOpen 0,
      EsFrame 0 \<lparr> lastEventId = ''1'', eventName = Some ''error'', rawPayload = ''x'' \<rparr>,
      EsFrame 0 \<lparr> lastEventId = ''2'', eventName = Some ''tick'', rawPayload = ''y'' \<rparr>,
      EsFrame 0 \<lparr> lastEventId = ''3'', eventName = Some ''error'', rawPayload = ''z'' \<rparr>]"
  have t: "transitions example_platform example_props init ?as =
             [Errored, Errored, Opened, Errored]"
    by (simp add: component_defs example_defs String_nat_digit)
  have t': "transitions example_platform example_props init ?bs =
             [Errored, Opened, Errored, Errored]"
    by (simp add: component_defs example_defs String_nat_digit)
  have e: "errors_since_open [Errored, Errored, Opened, Errored] = 1"
    and e': "errors_since_open [Errored, Opened, Errored, Errored] = 2"
    by (simp_all add: errors_since_open_def)
  from reconnect_counter [of example_platform example_props ?as]
  have 1: "attemptsRef (run example_platform example_props init ?as) =
          errors_since_open (transitions example_platform example_props init ?as) \<and>
        attempts (run example_platform example_props init ?as) =
          errors_since_open (transitions example_platform example_props init ?as)"
    by blast
  from reconnect_counter [of example_platform example_props ?bs]
  have 2: "attemptsRef (run example_platform example_props init ?bs) =
          errors_since_open (transitions example_platform example_props init ?bs)"
    by blast
  from 1 2 t t' e e' show ?thesis by simp
qed

subsection \<open>C4: the cap of the event buffer\<close>

text \<open>
  Claim C4. The event buffer never holds more than 200 records: in every state reached
  from the initial one, and after every sequence of insertions into a buffer within the
  cap. Each insertion prepends the record and truncates to 200, so inserting the records
  \<open>ms\<close> (oldest first) into the empty buffer leaves the 200 most recent, newest first;
  for 250 records these are the last 200 inserted, in reverse order of insertion.
\<close>

theorem event_buffer_cap:
  "length (messages (run P pr init as)) \<le> 200 \<and>
   (length (messages s) \<le> 200 \<longrightarrow> length (messages (fold pushMessage ms s)) \<le> 200) \<and>
   messages (fold pushMessage ms init) = take 200 (rev ms) \<and>
   (length ms = 250 \<longrightarrow> messages (fold pushMessage ms init) = rev (drop 50 ms))"
proof -
  have a: "length (messages (run P pr init as)) \<le> 200"
    by (rule length_messages_run) (simp add: init_def)
  have b: "length (messages s) \<le> 200 \<longrightarrow> length (messages (fold pushMessage ms s)) \<le> 200"
    by (simp add: messages_fold_pushMessage del: take_append)
  have c: "messages (fold pushMessage ms init) = take 200 (rev ms)"
    by (simp add: messages_fold_pushMessage init_def)
  have d: "length ms = 250 \<longrightarrow> take 200 (rev ms) = rev (drop 50 ms)"
    by (simp add: take_rev)
  from a b c d show ?thesis by simp
qed

theorem event_buffer_cap_witness:
  "length (messages init) \<le> 200 \<and> length (map numbered [0..<250]) = 250 \<and>
   length (messages (fold pushMessage (map numbered [0..<250]) init)) \<le> 200 \<and>
   messages (fold pushMessage (map numbered [0..<250]) init) =
     rev (drop 50 (map numbered [0..<250]))"
proof -
  have h1: "length (messages init) \<le> 200" by (simp add: init_def)
  have h2: "length (map numbered [0..<250]) = 250" by simp
  from h1 h2 event_buffer_cap [of example_platform example_props "[]" init "map numbered [0..<250]"]
  show ?thesis by blast
qed

subsection \<open>C5: which frames are recorded\<close>

text \<open>
  Claim C5 says that every incoming frame is recorded, whatever its event name.
  \<open>connect\<close> installs callbacks for the event types \<open>message\<close>, \<open>tick\<close>,
  \<open>heartbeat\<close>, \<open>update\<close>, \<open>open\<close> and \<open>error\<close> only: a frame named \<open>notice\<close>
  that arrives on the open handle leaves the whole state, and so the buffer, as it was.
\<close>

theorem frame_unregistered_counterexample:
  "live (run example_platform example_props init [ClickConnect, EsOpen 0]) 0 \<and>
   esRef (run example_platform example_props init [ClickConnect, EsOpen 0]) = Some 0 \<and>
   run example_platform example_props init
     [ClickConnect, EsOpen 0,
      EsFrame 0 \<lparr> lastEventId = ''7'', eventName = Some ''notice'', rawPayload = ''hello'' \<rparr>] =
   run example_platform example_props init [ClickConnect, EsOpen 0]"
  by (simp add: component_defs example_defs)

text \<open>
  Claim C5, amended. While the handle is live, every incoming frame whose event type is
  \<open>message\<close>, \<open>tick\<close>, \<open>heartbeat\<close> or \<open>update\<close> is converted to a record carrying
  that event name and pushed into the buffer. A frame of type \<open>open\<close> or \<open>error\<close> is
  not converted: it runs \<open>onopen\<close> or \<open>onerror\<close>, as the browser's own open or error
  event does, and what is pushed is that callback's meta record. A frame of any other type
  changes nothing, nor does a frame for a handle that is not live. A frame without a name
  has the type \<open>message\<close>.
\<close>

theorem frame_dispatch:
  "(live s h \<and> event_type f \<in> {''message'', ''tick'', ''heartbeat'', ''update''} \<longrightarrow>
      (\<exists>r. step P pr s (EsFrame h f) = pushMessage r s \<and>
           event r = Some (event_type f))) \<and>
   (live s h \<and> event_type f = ''open'' \<longrightarrow>
      step P pr s (EsFrame h f) = onopen s \<and>
      messages (step P pr s (EsFrame h f)) =
        take 200 (meta (''connected to '' @ fullUrl) # messages s)) \<and>
   (live s h \<and> event_type f = ''error'' \<longrightarrow>
      step P pr s (EsFrame h f) = onerror pr s \<and>
      messages (step P pr s (EsFrame h f)) =
        take 200 (meta (''error (attempt '' @ String_nat (attemptsRef s + 1) @ '')'')
                  # messages s)) \<and>
   (event_type f \<notin> {''message'', ''tick'', ''heartbeat'', ''update'', ''open'', ''error''} \<longrightarrow>
      step P pr s (EsFrame h f) = s) \<and>
   (\<not> live s h \<longrightarrow> step P pr s (EsFrame h f) = s) \<and>
   (eventName f = None \<longrightarrow> event_type f = ''message'')"
proof -
  have "event_type f \<notin> {''message'', ''tick'', ''heartbeat'', ''update'', ''open'', ''error''} \<longrightarrow>
          step P pr s (EsFrame h f) = s"
    by (simp add: dispatch_def listener_def)
  moreover have "eventName f = None \<longrightarrow> event_type f = ''message''"
    by (simp add: event_type_def)
  moreover have "live s h \<and> event_type f \<in> {''message'', ''tick'', ''heartbeat'', ''update''} \<longrightarrow>
      (\<exists>r. step P pr s (EsFrame h f) = pushMessage r s \<and> event r = Some (event_type f))"
    by (auto simp: dispatch_def listener_def onmessage_def on_tick_def on_heartbeat_def
          on_update_def)
  moreover have "live s h \<and> event_type f = ''open'' \<longrightarrow>
      step P pr s (EsFrame h f) = onopen s \<and>
      messages (step P pr s (EsFrame h f)) =
        take 200 (meta (''connected to '' @ fullUrl) # messages s)"
    by (simp add: dispatch_def listener_def messages_onopen)
  moreover have "live s h \<and> event_type f = ''error'' \<longrightarrow>
      step P pr s (EsFrame h f) = onerror pr s \<and>
      messages (step P pr s (EsFrame h f)) =
        take 200 (meta (''error (attempt '' @ String_nat (attemptsRef s + 1) @ '')'')
                  # messages s)"
    by (simp add: dispatch_def listener_def messages_onerror)
  moreover have "\<not> live s h \<longrightarrow> step P pr s (EsFrame h f) = s"
    by simp
  ultimately show ?thesis by blast
qed

theorem frame_dispatch_witness:
  "live (run example_platform example_props init [ClickConnect, EsOpen 0]) 0 \<and>
   eventName \<lparr> lastEventId = ''7'', eventName = None, rawPayload = ''hello'' \<rparr> = None \<and>
   event_type \<lparr> lastEventId = ''7'', eventName = None, rawPayload = ''hello'' \<rparr> = ''message'' \<and>
   (\<exists>r. step example_platform example_props
           (run example_platform example_props init [ClickConnect, EsOpen 0])
           (EsFrame 0 \<lparr> lastEventId = ''7'', eventName = None, rawPayload = ''hello'' \<rparr>) =
         pushMessage r (run example_platform example_props init [ClickConnect, EsOpen 0]) \<and>
         event r = Some ''message'') \<and>
   event_type \<lparr> lastEventId = ''7'', eventName = Some ''notice'', rawPayload = ''hello'' \<rparr>
     \<notin> {''message'', ''tick'', ''heartbeat'', ''update'', ''open'', ''error''} \<and>
   step example_platform example_props
     (run example_platform example_props init [ClickConnect, EsOpen 0])
     (EsFrame 0 \<lparr> lastEventId = ''7'', eventName = Some ''notice'', rawPayload = ''hello'' \<rparr>) =
   run example_platform example_props init [ClickConnect, EsOpen 0] \<and>
   event_type \<lparr> lastEventId = ''7'', eventName = Some ''error'', rawPayload = ''hello'' \<rparr> =
     ''error'' \<and>
   messages (step example_platform example_props
     (run example_platform example_props init [ClickConnect, EsOpen 0])
     (EsFrame 0 \<lparr> lastEventId = ''7'', eventName = Some ''error'', rawPayload = ''hello'' \<rparr>)) =
     [meta ''error (attempt 1)'', meta ''connected to http://localhost:3001''] \<and>
   event_type \<lparr> lastEventId = ''7'', eventName = Some ''open'', rawPayload = ''hello'' \<rparr> =
     ''open'' \<and>
   messages (step example_platform example_props
     (run example_platform example_props init [ClickConnect, EsOpen 0])
     (EsFrame 0 \<lparr> lastEventId = ''7'', eventName = Some ''open'', rawPayload = ''hello'' \<rparr>)) =
     [meta ''connected to http://localhost:3001'', meta ''connected to http://localhost:3001''] \<and>
   \<not> live (run example_platform example_props init [ClickConnect, ClickDisconnect]) 0 \<and>
   step example_platform example_props
     (run example_platform example_props init [ClickConnect, ClickDisconnect])
     (EsFrame 0 \<lparr> lastEventId = ''7'', eventName = None, rawPayload = ''hello'' \<rparr>) =
   run example_platform example_props init [ClickConnect, ClickDisconnect]"
proof -
  let ?s = "run example_platform example_props init [ClickConnect, EsOpen 0]"
  let ?c = "run example_platform example_props init [ClickConnect, ClickDisconnect]"
  let ?f = "\<lparr> lastEventId = ''7'', eventName = None, rawPayload = ''hello'' \<rparr>"
  let ?g = "\<lparr> lastEventId = ''7'', eventName = Some ''notice'', rawPayload = ''hello'' \<rparr>"
  let ?e = "\<lparr> lastEventId = ''7'', eventName = Some ''error'', rawPayload = ''hello'' \<rparr>"
  let ?o = "\<lparr> lastEventId = ''7'', eventName = Some ''open'', rawPayload = ''hello'' \<rparr>"
  have l: "live ?s 0" and m: "messages ?s = [meta ''connected to http://localhost:3001'']"
    and a: "attemptsRef ?s = 0"
    by (simp_all add: component_defs example_defs)
  have c: "\<not> live ?c 0"
    by (simp add: component_defs example_defs)
  have n: "eventName ?f = None" by simp
  have g: "event_type ?g \<notin> {''message'', ''tick'', ''heartbeat'', ''update'', ''open'', ''error''}"
    by (simp add: event_type_def)
  have e: "event_type ?e = ''error''" and o: "event_type ?o = ''open''"
    by (simp_all add: event_type_def)
  from n frame_dispatch [of ?s 0 ?f example_platform example_props]
  have t: "event_type ?f = ''message''" by blast
  with l frame_dispatch [of ?s 0 ?f example_platform example_props]
  have 1: "\<exists>r. step example_platform example_props ?s (EsFrame 0 ?f) = pushMessage r ?s \<and>
             event r = Some ''message''"
    by simp
  from g frame_dispatch [of ?s 0 ?g example_platform example_props]
  have 2: "step example_platform example_props ?s (EsFrame 0 ?g) = ?s" by blast
  from l e frame_dispatch [of ?s 0 ?e example_platform example_props]
  have "messages (step example_platform example_props ?s (EsFrame 0 ?e)) =
          take 200 (meta (''error (attempt '' @ String_nat (attemptsRef ?s + 1) @ '')'')
                    # messages ?s)"
    by blast
  also have "\<dots> = [meta ''error (attempt 1)'', meta ''connected to http://localhost:3001'']"
    by (simp only: m a) (simp add: String_nat_digit)
  finally have 3: "messages (step example_platform example_props ?s (EsFrame 0 ?e)) =
                  [meta ''error (attempt 1)'', meta ''connected to http://localhost:3001'']" .
  from l o frame_dispatch [of ?s 0 ?o example_platform example_props]
  have "messages (step example_platform example_props ?s (EsFrame 0 ?o)) =
          take 200 (meta (''connected to '' @ fullUrl) # messages ?s)"
    by blast
  also have "\<dots> = [meta ''connected to http://localhost:3001'',
                      meta ''connected to http://localhost:3001'']"
    by (simp only: m) (simp add: fullUrl_def)
  finally have 4: "messages (step example_platform example_props ?s (EsFrame 0 ?o)) =
                  [meta ''connected to http://localhost:3001'',
                   meta ''connected to http://localhost:3001'']" .
  from c frame_dispatch [of ?c 0 ?f example_platform example_props]
  have 5: "step example_platform example_props ?c (EsFrame 0 ?f) = ?c" by blast
  from l n t 1 g 2 e 3 o 4 c 5 show ?thesis by blast
qed

subsection \<open>C6: the URL of the stream\<close>

text \<open>
  Claim C6 (the stream is opened with a query string carrying the token and a fresh
  client id). \<open>buildUrl\<close> does that, but \<open>connect\<close> does not call it (line 67 is a
  comment): with the properties \<open>url = /sse\<close> and \<open>token = abc\<close>, two successive
  connects open the same URL \<open>http://localhost:3001/sse\<close>, with no query string.
\<close>

theorem connect_url_fixed:
  "url example_props = ''/sse'' \<and> token example_props = ''abc'' \<and>
   map es_url (heap (run example_platform example_props init [ClickConnect, ClickConnect])) =
     [''http://localhost:3001/sse'', ''http://localhost:3001/sse'']"
  by (simp add: component_defs example_defs)

subsection \<open>C7: a side-channel send with a malformed body\<close>

text \<open>
  Claim C7. When the payload of a side-channel send is not valid JSON (\<open>JSON.parse\<close>
  throws \<open>err\<close>), no request is issued (\<open>requests\<close> and \<open>pending\<close> are unchanged),
  the record with event name \<open>manual-send-error\<close> and data \<open>String(err)\<close> is inserted
  into the buffer, and nothing else of the state changes: the handle, the connected flag,
  the status text, the attempt counter and the pending timers are as before.
\<close>

theorem sendManual_malformed:
  "JSON_parse P (manualPayload s) = Inl err \<longrightarrow>
     step P pr s ClickSend =
       s\<lparr>messages := take 200 (\<lparr> id' = None, event = Some ''manual-send-error'',
                                   data = JString (String_error err), raw = None \<rparr>
                                # messages s)\<rparr> \<and>
     requests (step P pr s ClickSend) = requests s \<and>
     pending (step P pr s ClickSend) = pending s \<and>
     esRef (step P pr s ClickSend) = esRef s \<and>
     heap (step P pr s ClickSend) = heap s \<and>
     connected (step P pr s ClickSend) = connected s \<and>
     statusText (step P pr s ClickSend) = statusText s \<and>
     attempts (step P pr s ClickSend) = attempts s \<and>
     attemptsRef (step P pr s ClickSend) = attemptsRef s \<and>
     timers (step P pr s ClickSend) = timers s"
  by (simp add: sendManual_def pushMessage_def)

theorem sendManual_malformed_witness:
  "JSON_parse example_platform
     (manualPayload (run example_platform example_props init
        [ClickConnect, EsOpen 0, EditPayload ''not json''])) =
     Inl \<lparr> err_name = ''SyntaxError'', err_message = ''Unexpected token'' \<rparr> \<and>
   requests (run example_platform example_props init
        [ClickConnect, EsOpen 0, EditPayload ''not json'', ClickSend]) = [] \<and>
   messages (run example_platform example_props init
        [ClickConnect, EsOpen 0, EditPayload ''not json'', ClickSend]) =
     [\<lparr> id' = None, event = Some ''manual-send-error'',
        data = JString ''SyntaxError: Unexpected token'', raw = None \<rparr>,
      \<lparr> id' = None, event = Some ''__meta'',
        data = JString ''connected to http://localhost:3001'', raw = None \<rparr>] \<and>
   statusText (run example_platform example_props init
        [ClickConnect, EsOpen 0, EditPayload ''not json'', ClickSend]) = ''open''"
proof -
  let ?s = "run example_platform example_props init
              [ClickConnect, EsOpen 0, EditPayload ''not json'']"
  let ?e = "\<lparr> err_name = ''SyntaxError'', err_message = ''Unexpected token'' \<rparr>"
  have h: "JSON_parse example_platform (manualPayload ?s) = Inl ?e"
    by (simp add: component_defs example_defs)
  have r: "run example_platform example_props init
             [ClickConnect, EsOpen 0, EditPayload ''not json'', ClickSend] =
           step example_platform example_props ?s ClickSend"
    by (simp only: run.simps)
  have s: "requests ?s = [] \<and> statusText ?s = ''open'' \<and>
           messages ?s = [\<lparr> id' = None, event = Some ''__meta'',
                             data = JString ''connected to http://localhost:3001'',
                             raw = None \<rparr>]"
    by (simp add: component_defs example_defs)
  from sendManual_malformed [of example_platform ?s ?e example_props] h
  have "step example_platform example_props ?s ClickSend =
          ?s\<lparr>messages := take 200 (\<lparr> id' = None, event = Some ''manual-send-error'',
                                       data = JString (String_error ?e), raw = None \<rparr>
                                    # messages ?s)\<rparr>"
    by blast
  with h r s show ?thesis by (simp add: String_error_def)
qed

subsection \<open>C8: how a side-channel request ends\<close>

text \<open>
  Claim C8 says that a request which fails with a non-2xx status gives a
  \<open>manual-send-error\<close> record. \<open>sendManual\<close> never looks at the status: a response with
  status 500 whose body is the JSON document \<open>{"a":1}\<close> is reported as a
  \<open>manual-send-result\<close> record.
\<close>

theorem sendManual_non2xx_counterexample:
  \<open>pending (run example_platform example_props init
      [EditPayload ''{"a":1}'', ClickSend]) = 1 \<and>
    messages (run example_platform example_props init
      [EditPayload ''{"a":1}'', ClickSend, FetchSettles (Response 500 ''{"a":1}'')]) =
      [\<lparr> id' = None, event = Some ''manual-send-result'',
         data = JObject [(''a'', JNumber 1)], raw = None \<rparr>]\<close>
  by (simp add: component_defs example_defs)

text \<open>
  Claim C8, amended. For a send that has issued a request: when \<open>fetch\<close> rejects (a
  network error), the record is \<open>manual-send-error\<close> with the error's text; when a
  response arrives and its body is not JSON, the record is \<open>manual-send-error\<close> with the
  parse error's text; when a response arrives and its body parses, the record is
  \<open>manual-send-result\<close> with the parsed body, whatever the status of the response.
\<close>

theorem sendManual_settles:
  "0 < pending s \<longrightarrow>
     step P pr s (FetchSettles (NetworkError nerr)) =
       pushMessage \<lparr> id' = None, event = Some ''manual-send-error'',
                     data = JString (String_error nerr), raw = None \<rparr>
         (s\<lparr>pending := pending s - 1\<rparr>) \<and>
     (JSON_parse P body = Inl perr \<longrightarrow>
        step P pr s (FetchSettles (Response status body)) =
          pushMessage \<lparr> id' = None, event = Some ''manual-send-error'',
                        data = JString (String_error perr), raw = None \<rparr>
            (s\<lparr>pending := pending s - 1\<rparr>)) \<and>
     (JSON_parse P body = Inr v \<longrightarrow>
        step P pr s (FetchSettles (Response status body)) =
          pushMessage \<lparr> id' = None, event = Some ''manual-send-result'',
                        data = v, raw = None \<rparr>
            (s\<lparr>pending := pending s - 1\<rparr>))"
  by (simp add: sendManual_resume_def Let_def)

theorem sendManual_settles_witness:
  \<open>0 < pending (run example_platform example_props init
           [EditPayload ''{"a":1}'', ClickSend]) \<and>
    JSON_parse example_platform ''Bad Gateway'' =
      Inl \<lparr> err_name = ''SyntaxError'', err_message = ''Unexpected token'' \<rparr> \<and>
    JSON_parse example_platform ''{"a":1}'' = Inr (JObject [(''a'', JNumber 1)]) \<and>
    messages (step example_platform example_props
        (run example_platform example_props init [EditPayload ''{"a":1}'', ClickSend])
        (FetchSettles (NetworkError
           \<lparr> err_name = ''TypeError'', err_message = ''Failed to fetch'' \<rparr>))) =
      [\<lparr> id' = None, event = Some ''manual-send-error'',
         data = JString ''TypeError: Failed to fetch'', raw = None \<rparr>] \<and>
    messages (step example_platform example_props
        (run example_platform example_props init [EditPayload ''{"a":1}'', ClickSend])
        (FetchSettles (Response 502 ''Bad Gateway''))) =
      [\<lparr> id' = None, event = Some ''manual-send-error'',
         data = JString ''SyntaxError: Unexpected token'', raw = None \<rparr>] \<and>
    messages (step example_platform example_props
        (run example_platform example_props init [EditPayload ''{"a":1}'', ClickSend])
        (FetchSettles (Response 200 ''{"a":1}''))) =
      [\<lparr> id' = None, event = Some ''manual-send-result'',
         data = JObject [(''a'', JNumber 1)], raw = None \<rparr>]\<close>
proof -
  let ?s = \<open>run example_platform example_props init [EditPayload ''{"a":1}'', ClickSend]\<close>
  let ?e = "\<lparr> err_name = ''SyntaxError'', err_message = ''Unexpected token'' \<rparr>"
  let ?t = "\<lparr> err_name = ''TypeError'', err_message = ''Failed to fetch'' \<rparr>"
  let ?v = "JObject [(''a'', JNumber 1)]"
  have p: "0 < pending ?s" and m: "messages ?s = []"
    by (simp_all add: component_defs example_defs)
  have e: "JSON_parse example_platform ''Bad Gateway'' = Inl ?e"
    by (simp add: example_defs)
  have v: \<open>JSON_parse example_platform ''{"a":1}'' = Inr ?v\<close>
    by (simp add: example_defs)
  from p e sendManual_settles [where s = ?s and P = example_platform and pr = example_props
       and nerr = ?t and body = "''Bad Gateway''" and perr = ?e and status = 502]
  have 1: "step example_platform example_props ?s (FetchSettles (NetworkError ?t)) =
             pushMessage \<lparr> id' = None, event = Some ''manual-send-error'',
                           data = JString (String_error ?t), raw = None \<rparr>
               (?s\<lparr>pending := pending ?s - 1\<rparr>)"
    and 2: "step example_platform example_props ?s (FetchSettles (Response 502 ''Bad Gateway'')) =
             pushMessage \<lparr> id' = None, event = Some ''manual-send-error'',
                           data = JString (String_error ?e), raw = None \<rparr>
               (?s\<lparr>pending := pending ?s - 1\<rparr>)"
    by blast+
  from p v sendManual_settles [where s = ?s and P = example_platform and pr = example_props
       and body = \<open>''{"a":1}''\<close> and status = 200 and v = ?v]
  have 3: \<open>step example_platform example_props ?s (FetchSettles (Response 200 ''{"a":1}'')) =
             pushMessage \<lparr> id' = None, event = Some ''manual-send-result'',
                           data = ?v, raw = None \<rparr>
               (?s\<lparr>pending := pending ?s - 1\<rparr>)\<close>
    by blast
  from p e v m show ?thesis
    by (simp only: 1 2 3) (simp add: pushMessage_def String_error_def)
qed

subsection \<open>C9: decoding the payload\<close>

text \<open>
  Claim C9 says that the payload of every buffered frame is decoded when it parses,
  uniformly for every event name, heartbeat included. The listener of \<open>heartbeat\<close>
  never calls \<open>JSON.parse\<close>: a heartbeat frame whose payload is the JSON document
  \<open>{"a":1}\<close> is recorded with the string as its data.
\<close>

theorem heartbeat_not_decoded_counterexample:
  \<open>JSON_parse example_platform ''{"a":1}'' = Inr (JObject [(''a'', JNumber 1)]) \<and>
    messages (run example_platform example_props init
      [ClickConnect, EsOpen 0,
       EsFrame 0 \<lparr> lastEventId = ''7'', eventName = Some ''heartbeat'',
                   rawPayload = ''{"a":1}'' \<rparr>]) =
      [\<lparr> id' = None, event = Some ''heartbeat'', data = JString ''{"a":1}'', raw = None \<rparr>,
       \<lparr> id' = None, event = Some ''__meta'',
         data = JString ''connected to http://localhost:3001'', raw = None \<rparr>]\<close>
  by (simp add: component_defs example_defs)

text \<open>
  Claim C9, amended. For a frame of type \<open>message\<close>, \<open>tick\<close> or \<open>update\<close> the only
  effect is one record pushed, whose data is the parsed value when the raw payload parses
  and the raw payload string otherwise, and whose \<open>raw\<close> is the payload; for a frame of
  type \<open>heartbeat\<close> the only effect is one record pushed whose data is the raw payload
  string, no decoding attempted. No failure to decode raises or records an error.
\<close>

theorem payload_decoding:
  "(live s h \<and> event_type f \<in> {''message'', ''tick'', ''update''} \<longrightarrow>
      (\<exists>r. step P pr s (EsFrame h f) = pushMessage r s \<and>
           event r = Some (event_type f) \<and> raw r = Some (rawPayload f) \<and>
           data r = (case JSON_parse P (rawPayload f) of
                       Inr v \<Rightarrow> v
                     | Inl err \<Rightarrow> JString (rawPayload f)))) \<and>
   (live s h \<and> event_type f = ''heartbeat'' \<longrightarrow>
      step P pr s (EsFrame h f) =
        pushMessage \<lparr> id' = None, event = Some ''heartbeat'',
                      data = JString (rawPayload f), raw = None \<rparr> s)"
proof -
  have "live s h \<and> event_type f = ''heartbeat'' \<longrightarrow>
          step P pr s (EsFrame h f) =
            pushMessage \<lparr> id' = None, event = Some ''heartbeat'',
                          data = JString (rawPayload f), raw = None \<rparr> s"
    by (simp add: dispatch_def listener_def on_heartbeat_def)
  moreover have "live s h \<and> event_type f \<in> {''message'', ''tick'', ''update''} \<longrightarrow>
      (\<exists>r. step P pr s (EsFrame h f) = pushMessage r s \<and>
           event r = Some (event_type f) \<and> raw r = Some (rawPayload f) \<and>
           data r = (case JSON_parse P (rawPayload f) of
                       Inr v \<Rightarrow> v
                     | Inl err \<Rightarrow> JString (rawPayload f)))"
    by (auto simp: dispatch_def listener_def onmessage_def on_tick_def on_update_def
          parse_or_keep_def split: sum.splits)
  ultimately show ?thesis by blast
qed

theorem payload_decoding_witness:
  \<open>live (run example_platform example_props init [ClickConnect, EsOpen 0]) 0 \<and>
    (\<exists>r. step example_platform example_props
            (run example_platform example_props init [ClickConnect, EsOpen 0])
            (EsFrame 0 \<lparr> lastEventId = ''7'', eventName = None, rawPayload = ''{"a":1}'' \<rparr>) =
          pushMessage r (run example_platform example_props init [ClickConnect, EsOpen 0]) \<and>
          data r = JObject [(''a'', JNumber 1)]) \<and>
    (\<exists>r. step example_platform example_props
            (run example_platform example_props init [ClickConnect, EsOpen 0])
            (EsFrame 0 \<lparr> lastEventId = ''8'', eventName = Some ''update'',
                        rawPayload = ''not json'' \<rparr>) =
          pushMessage r (run example_platform example_props init [ClickConnect, EsOpen 0]) \<and>
          data r = JString ''not json'') \<and>
    data (hd (messages (step example_platform example_props
            (run example_platform example_props init [ClickConnect, EsOpen 0])
            (EsFrame 0 \<lparr> lastEventId = ''9'', eventName = Some ''heartbeat'',
                        rawPayload = ''not json'' \<rparr>)))) = JString ''not json''\<close>
proof -
  let ?s = "run example_platform example_props init [ClickConnect, EsOpen 0]"
  let ?f = \<open>\<lparr> lastEventId = ''7'', eventName = None, rawPayload = ''{"a":1}'' \<rparr>\<close>
  let ?g = "\<lparr> lastEventId = ''8'', eventName = Some ''update'', rawPayload = ''not json'' \<rparr>"
  let ?k = "\<lparr> lastEventId = ''9'', eventName = Some ''heartbeat'', rawPayload = ''not json'' \<rparr>"
  have l: "live ?s 0"
    by (simp add: component_defs example_defs)
  have f: "event_type ?f \<in> {''message'', ''tick'', ''update''}"
    and g: "event_type ?g \<in> {''message'', ''tick'', ''update''}"
    and k: "event_type ?k = ''heartbeat''"
    by (simp_all add: event_type_def)
  have pf: \<open>JSON_parse example_platform (rawPayload ?f) = Inr (JObject [(''a'', JNumber 1)])\<close>
    and pg: "JSON_parse example_platform (rawPayload ?g) =
               Inl \<lparr> err_name = ''SyntaxError'', err_message = ''Unexpected token'' \<rparr>"
    by (simp_all add: example_defs)
  from l f payload_decoding [of ?s 0 ?f example_platform example_props]
  obtain r where r: "step example_platform example_props ?s (EsFrame 0 ?f) = pushMessage r ?s"
    "data r = (case JSON_parse example_platform (rawPayload ?f) of
                 Inr v \<Rightarrow> v | Inl err \<Rightarrow> JString (rawPayload ?f))"
    by blast
  from r(2) have "data r = JObject [(''a'', JNumber 1)]"
    by (simp only: pf sum.case)
  with r(1)
  have 1: "\<exists>r. step example_platform example_props ?s (EsFrame 0 ?f) = pushMessage r ?s \<and>
             data r = JObject [(''a'', JNumber 1)]"
    by blast
  from l g payload_decoding [of ?s 0 ?g example_platform example_props]
  obtain q where q: "step example_platform example_props ?s (EsFrame 0 ?g) = pushMessage q ?s"
    "data q = (case JSON_parse example_platform (rawPayload ?g) of
                 Inr v \<Rightarrow> v | Inl err \<Rightarrow> JString (rawPayload ?g))"
    by blast
  from q(2) have "data q = JString ''not json''"
    by (simp only: pg sum.case) simp
  with q(1)
  have 2: "\<exists>r. step example_platform example_props ?s (EsFrame 0 ?g) = pushMessage r ?s \<and>
             data r = JString ''not json''"
    by blast
  from l k payload_decoding [of ?s 0 ?k example_platform example_props]
  have "step example_platform example_props ?s (EsFrame 0 ?k) =
          pushMessage \<lparr> id' = None, event = Some ''heartbeat'',
                        data = JString (rawPayload ?k), raw = None \<rparr> ?s"
    by blast
  then have 3: "data (hd (messages (step example_platform example_props ?s (EsFrame 0 ?k)))) =
                  JString ''not json''"
    by (simp add: pushMessage_def)
  from l 1 2 3 show ?thesis by blast
qed

subsection \<open>C10: existing records are never removed or changed\<close>

text \<open>
  Claim C10. No operation removes or changes a record of the event buffer other than by
  the truncation to 200 on insertion: every action either leaves \<open>messages\<close> as it is
  or prepends one record and truncates; disconnecting leaves it as it is, and so does
  connecting (which inserts one meta record only when the \<open>EventSource\<close> constructor
  throws); and after any further actions \<open>bs\<close> the buffer is the truncation to 200 of
  some new records followed by the buffer accumulated before, in its order.
\<close>

theorem buffer_only_grows:
  "(messages (step P pr s a) = messages s \<or>
    (\<exists>m. messages (step P pr s a) = take 200 (m # messages s))) \<and>
   messages (step P pr s ClickDisconnect) = messages s \<and>
   messages (step P pr s ClickConnect) =
     (case new_EventSource P (fullUrl @ ''/sse'') of
        None \<Rightarrow> messages s
      | Some err \<Rightarrow> take 200 (meta (String_error err) # messages s)) \<and>
   (\<exists>new. messages (run P pr init (as @ bs)) =
            take 200 (new @ messages (run P pr init as)))"
proof -
  let ?s = "run P pr init as"
  have "length (messages ?s) \<le> 200"
    by (rule length_messages_run) (simp add: init_def)
  then have "messages ?s = take 200 ([] @ messages ?s)" by simp
  then have "\<exists>new. messages (run P pr ?s bs) = take 200 (new @ messages ?s)"
    by (rule messages_run_from)
  then have "\<exists>new. messages (run P pr init (as @ bs)) = take 200 (new @ messages ?s)"
    by (simp only: run_append)
  with messages_step [of P pr s a] show ?thesis
    by (simp add: messages_cleanup messages_connect)
qed

text \<open>An instance of C10: disconnecting and reconnecting keep the two meta records.\<close>

theorem buffer_only_grows_witness:
  "messages (run example_platform example_props init
     [ClickConnect, EsOpen 0, EsError 0 False]) =
     [meta ''error (attempt 1)'', meta ''connected to http://localhost:3001''] \<and>
   messages (step example_platform example_props
     (run example_platform example_props init [ClickConnect, EsOpen 0, EsError 0 False])
     ClickDisconnect) =
     [meta ''error (attempt 1)'', meta ''connected to http://localhost:3001''] \<and>
   messages (step example_platform example_props
     (run example_platform example_props init [ClickConnect, EsOpen 0, EsError 0 False])
     ClickConnect) =
     [meta ''error (attempt 1)'', meta ''connected to http://localhost:3001'']"
proof -
  let ?s = "run example_platform example_props init [ClickConnect, EsOpen 0, EsError 0 False]"
  have m: "messages ?s =
             [meta ''error (attempt 1)'', meta ''connected to http://localhost:3001'']"
    by (simp add: component_defs example_defs String_nat_digit)
  have n: "new_EventSource example_platform (fullUrl @ ''/sse'') = None"
    by (simp add: example_defs)
  from buffer_only_grows [of example_platform example_props ?s ClickConnect]
  have "messages (step example_platform example_props ?s ClickDisconnect) = messages ?s \<and>
        messages (step example_platform example_props ?s ClickConnect) =
          (case new_EventSource example_platform (fullUrl @ ''/sse'') of
             None \<Rightarrow> messages ?s
           | Some err \<Rightarrow> take 200 (meta (String_error err) # messages ?s))"
    by blast
  with m n show ?thesis by simp
qed

end